theory Spec2Isabelle
  imports Complex_Main "HOL-Library.AList"
begin

section \<open>JavaScript values\<close>

text \<open>
  A JavaScript number is a finite value, one of the two infinities, or NaN. Finite
  values are exact rationals here: the rounding error of IEEE doubles is not modelled,
  the propagation of NaN and of the infinities is.
\<close>

datatype jsnum = NaN | NegInf | Fin rat | PosInf

text \<open>
  The values a parsed JSON payload holds in the fields the relay reads as numbers,
  vectors and poses: a missing field is \<open>JUndefined\<close>, an object is the list of its
  fields. Strings and arrays in those places are left out of the type (their conversion
  to a number is the string parser of the language).
\<close>

datatype jsval = JUndefined | JNull | JBool bool | JNum jsnum | JObj "(string \<times> jsval) list"

fun truthy :: "jsval \<Rightarrow> bool" where
  "truthy JUndefined = False"
| "truthy JNull = False"
| "truthy (JBool b) = b"
| "truthy (JNum n) = (n \<noteq> NaN \<and> n \<noteq> Fin 0)"
| "truthy (JObj kvs) = True"

text \<open>
  Property access \<open>v.k\<close>. On a boolean or a number it is \<open>undefined\<close>. On
  \<open>undefined\<close> and \<open>null\<close> JavaScript throws; every access of the source is behind
  a truthiness test, so these two cases are never evaluated by the definitions below.
\<close>

fun getProp :: "jsval \<Rightarrow> string \<Rightarrow> jsval" where
  "getProp (JObj kvs) k = (case map_of kvs k of Some u \<Rightarrow> u | None \<Rightarrow> JUndefined)"
| "getProp v k = JUndefined"

text \<open>\<open>typeof v === 'number'\<close>\<close>

fun is_number :: "jsval \<Rightarrow> bool" where
  "is_number (JNum n) = True"
| "is_number v = False"

text \<open>The conversion applied by the arithmetic operators (ToNumber).\<close>

fun toNumber :: "jsval \<Rightarrow> jsnum" where
  "toNumber JUndefined = NaN"
| "toNumber JNull = Fin 0"
| "toNumber (JBool b) = Fin (if b then 1 else 0)"
| "toNumber (JNum n) = n"
| "toNumber (JObj kvs) = NaN"

text \<open>\<open>a * 1000\<close> and \<open>a / 1000\<close>\<close>

fun times1000 :: "jsnum \<Rightarrow> jsnum" where
  "times1000 (Fin r) = Fin (r * 1000)"
| "times1000 n = n"

fun divide1000 :: "jsnum \<Rightarrow> jsnum" where
  "divide1000 (Fin r) = Fin (r / 1000)"
| "divide1000 n = n"

text \<open>\<open>Math.round\<close>: the nearest integer, a tie going up.\<close>

fun Math_round :: "jsnum \<Rightarrow> jsnum" where
  "Math_round (Fin r) = Fin (of_int \<lfloor>r + 1 / 2\<rfloor>)"
| "Math_round n = n"

fun num_le :: "jsnum \<Rightarrow> jsnum \<Rightarrow> bool" where
  "num_le NaN b = False"
| "num_le a NaN = False"
| "num_le NegInf b = True"
| "num_le a PosInf = True"
| "num_le (Fin r) (Fin q) = (r \<le> q)"
| "num_le a b = False"

text \<open>\<open>Math.min\<close> and \<open>Math.max\<close> return NaN as soon as one argument is NaN.\<close>

definition Math_min :: "jsnum \<Rightarrow> jsnum \<Rightarrow> jsnum" where
  "Math_min a b = (if a = NaN \<or> b = NaN then NaN else if num_le a b then a else b)"

definition Math_max :: "jsnum \<Rightarrow> jsnum \<Rightarrow> jsnum" where
  "Math_max a b = (if a = NaN \<or> b = NaN then NaN else if num_le a b then b else a)"

section \<open>Sanitizer\<close>

datatype vec3 = Vec3 jsnum jsnum jsnum

datatype quat = Quat jsnum jsnum jsnum jsnum

text \<open>
  One component of \<open>clampVector3\<close>:
  \<open>Math.max(-1000, Math.min(1000, Math.round(c * 1000) / 1000))\<close>,
  and of \<open>clampQuaternion\<close>, with the bound 1.
  The arithmetic is exact: where the product \<open>c * 1000\<close> of the doubles is rounded
  across a tie (0.5005 * 1000 is below 500.5 in doubles and exactly 500.5 here), the code
  and this definition round to neighbouring thousandths. Nothing below is evaluated on
  such an input.
\<close>

definition clampAxis :: "rat \<Rightarrow> jsval \<Rightarrow> jsnum" where
  "clampAxis bound c =
     Math_max (Fin (- bound)) (Math_min (Fin bound) (divide1000 (Math_round (times1000 (toNumber c)))))"

definition clampVector3 :: "jsval \<Rightarrow> vec3" where
  "clampVector3 vec =
     (if \<not> truthy vec then Vec3 (Fin 0) (Fin 0) (Fin 0)
      else if \<not> is_number (getProp vec ''x'') then Vec3 (Fin 0) (Fin 0) (Fin 0)
      else Vec3 (clampAxis 1000 (getProp vec ''x''))
                (clampAxis 1000 (getProp vec ''y''))
                (clampAxis 1000 (getProp vec ''z'')))"

definition clampQuaternion :: "jsval \<Rightarrow> quat" where
  "clampQuaternion qv =
     (if \<not> truthy qv then Quat (Fin 0) (Fin 0) (Fin 0) (Fin 1)
      else if \<not> is_number (getProp qv ''x'') then Quat (Fin 0) (Fin 0) (Fin 0) (Fin 1)
      else Quat (clampAxis 1 (getProp qv ''x''))
                (clampAxis 1 (getProp qv ''y''))
                (clampAxis 1 (getProp qv ''z''))
                (clampAxis 1 (getProp qv ''w'')))"

section \<open>Relay server\<close>

text \<open>A connection (the \<open>ws\<close> object of the source) is named by a number.\<close>

type_synonym conn = nat

text \<open>
  An inbound message, as the fields the relay reads from it. \<open>clientId\<close>, \<open>room\<close>
  and \<open>plantType\<close> are strings when present, as the protocol has them; the other
  payload fields are any value.
\<close>

record message =
  v :: jsval
  mtype :: string
  m_clientId :: "string option"
  m_room :: "string option"
  m_t :: jsval
  m_head :: jsval
  m_lh :: jsval
  m_rh :: jsval
  m_plantType :: "string option"
  m_pos :: jsval
  m_quat :: jsval

text \<open>
  A received frame: \<open>Malformed\<close> is text that \<open>JSON.parse\<close> rejects or that parses to
  \<open>null\<close> (reading its fields throws, into the same \<open>catch\<close>); anything else is a message.
\<close>

datatype frame = Malformed | Msg message

datatype pose = Pose (pose_p: vec3) (pose_q: quat)

text \<open>The messages the relay sends (the argument of \<open>JSON.stringify\<close>).\<close>

datatype out_msg =
    Join string int
  | Leave string int
  | HelloAck string string
  | ErrorMsg string int
  | Snapshot jsval pose pose pose string
  | PlantEvent string string vec3 quat jsval

datatype effect = Send conn out_msg | Ping conn | Terminate conn

record client =
  clientId :: string
  room :: string
  lastPing :: int
  lastSnapshot :: "int option"

text \<open>
  The server: \<open>rooms\<close> maps a room to its set of connections, kept as a duplicate-free
  list in insertion order (the order \<open>forEach\<close> visits a Set in); \<open>clients\<close> maps a
  connection to its session; \<open>wssClients\<close> is \<open>wss.clients\<close>; \<open>isOpen c\<close> is
  \<open>c.readyState === c.OPEN\<close>.
\<close>

record relay =
  rooms :: "string \<rightharpoonup> conn list"
  clients :: "conn \<rightharpoonup> client"
  wssClients :: "conn list"
  isOpen :: "conn \<Rightarrow> bool"

definition MultiplayerServer :: relay where
  "MultiplayerServer = \<lparr>rooms = Map.empty, clients = Map.empty, wssClients = [], isOpen = (\<lambda>c. False)\<rparr>"

text \<open>\<open>Set.add\<close> and \<open>Set.delete\<close> on the list that stands for a Set.\<close>

definition set_add :: "conn \<Rightarrow> conn list \<Rightarrow> conn list" where
  "set_add c cs = (if c \<in> set cs then cs else cs @ [c])"

definition set_delete :: "conn \<Rightarrow> conn list \<Rightarrow> conn list" where
  "set_delete c cs = removeAll c cs"

definition send :: "relay \<Rightarrow> conn \<Rightarrow> out_msg \<Rightarrow> effect list" where
  "send s c msg = (if isOpen s c then [Send c msg] else [])"

definition sendError :: "relay \<Rightarrow> int \<Rightarrow> conn \<Rightarrow> string \<Rightarrow> effect list" where
  "sendError s now c err = send s c (ErrorMsg err now)"

definition broadcastToRoom :: "relay \<Rightarrow> string \<Rightarrow> out_msg \<Rightarrow> conn option \<Rightarrow> effect list" where
  "broadcastToRoom s roomId msg exclude =
     (case rooms s roomId of
        None \<Rightarrow> []
      | Some roomClients \<Rightarrow>
          map (\<lambda>c. Send c msg) (filter (\<lambda>c. Some c \<noteq> exclude \<and> isOpen s c) roomClients))"

definition cleanupClient :: "relay \<Rightarrow> conn \<Rightarrow> relay" where
  "cleanupClient s c =
     (case clients s c of
        None \<Rightarrow> s
      | Some cl \<Rightarrow>
          let s1 = (case rooms s (room cl) of
                      None \<Rightarrow> s
                    | Some rc \<Rightarrow> s\<lparr>rooms := (rooms s)(room cl \<mapsto> set_delete c rc)\<rparr>)
          in s1\<lparr>clients := (clients s1)(c := None)\<rparr>)"

text \<open>\<open>!clientId\<close> and \<open>!plantType\<close>: a missing or empty string.\<close>

fun str_truthy :: "string option \<Rightarrow> bool" where
  "str_truthy None = False"
| "str_truthy (Some z) = (z \<noteq> [])"

definition handleHello :: "relay \<Rightarrow> int \<Rightarrow> conn \<Rightarrow> message \<Rightarrow> relay \<times> effect list" where
  "handleHello s now c msg =
     (case m_clientId msg of
        None \<Rightarrow> (s, sendError s now c ''clientId required'')
      | Some cid \<Rightarrow>
          if cid = [] then (s, sendError s now c ''clientId required'')
          else
            let rm = (case m_room msg of None \<Rightarrow> ''default'' | Some r \<Rightarrow> r);
                s1 = cleanupClient s c;
                s2 = s1\<lparr>clients := (clients s1)(c \<mapsto>
                        \<lparr>clientId = cid, room = rm, lastPing = now, lastSnapshot = None\<rparr>)\<rparr>;
                s3 = (case rooms s2 rm of
                        None \<Rightarrow> s2\<lparr>rooms := (rooms s2)(rm \<mapsto> [])\<rparr>
                      | Some rc \<Rightarrow> s2);
                s4 = (case rooms s3 rm of
                        None \<Rightarrow> s3
                      | Some rc \<Rightarrow> s3\<lparr>rooms := (rooms s3)(rm \<mapsto> set_add c rc)\<rparr>)
            in (s4, broadcastToRoom s4 rm (Join cid now) (Some c) @ send s4 c (HelloAck cid rm)))"

text \<open>\<open>t || Date.now()\<close>\<close>

definition t_or_now :: "jsval \<Rightarrow> int \<Rightarrow> jsval" where
  "t_or_now tv now = (if truthy tv then tv else JNum (Fin (of_int now)))"

definition sanitizePose :: "jsval \<Rightarrow> pose" where
  "sanitizePose h = Pose (clampVector3 (getProp h ''p'')) (clampQuaternion (getProp h ''q''))"

text \<open>
  \<open>sanitizeSnapshot\<close> returns \<open>null\<close> or the snapshot without its \<open>clientId\<close>, which
  \<open>handleSnapshot\<close> then sets: the result here is the function of the client id.
\<close>

definition sanitizeSnapshot :: "int \<Rightarrow> message \<Rightarrow> (string \<Rightarrow> out_msg) option" where
  "sanitizeSnapshot now msg =
     (if \<not> truthy (m_head msg) \<or> \<not> truthy (m_lh msg) \<or> \<not> truthy (m_rh msg) then None
      else Some (Snapshot (t_or_now (m_t msg) now)
                   (sanitizePose (m_head msg)) (sanitizePose (m_lh msg)) (sanitizePose (m_rh msg))))"

text \<open>\<open>client.lastSnapshot && now - client.lastSnapshot < 40\<close>\<close>

fun rateLimited :: "int option \<Rightarrow> int \<Rightarrow> bool" where
  "rateLimited None now = False"
| "rateLimited (Some l) now = (l \<noteq> 0 \<and> now - l < 40)"

definition handleSnapshot :: "relay \<Rightarrow> int \<Rightarrow> conn \<Rightarrow> message \<Rightarrow> relay \<times> effect list" where
  "handleSnapshot s now c msg =
     (case clients s c of
        None \<Rightarrow> (s, sendError s now c ''Not authenticated'')
      | Some cl \<Rightarrow>
          if rateLimited (lastSnapshot cl) now then (s, [])
          else
            let cl1 = cl\<lparr>lastSnapshot := Some now\<rparr>;
                s1 = s\<lparr>clients := (clients s)(c \<mapsto> cl1)\<rparr>
            in (case sanitizeSnapshot now msg of
                  None \<Rightarrow> (s1, [])
                | Some sanitized \<Rightarrow>
                    (s1, broadcastToRoom s1 (room cl1) (sanitized (clientId cl1)) (Some c))))"

definition handlePlantEvent :: "relay \<Rightarrow> int \<Rightarrow> conn \<Rightarrow> message \<Rightarrow> relay \<times> effect list" where
  "handlePlantEvent s now c msg =
     (case clients s c of
        None \<Rightarrow> (s, sendError s now c ''Not authenticated'')
      | Some cl \<Rightarrow>
          if \<not> str_truthy (m_plantType msg) \<or> \<not> truthy (m_pos msg) \<or> \<not> truthy (m_quat msg)
          then (s, sendError s now c ''Invalid plant event data'')
          else
            (s, broadcastToRoom s (room cl)
                  (PlantEvent (clientId cl) (case m_plantType msg of Some p \<Rightarrow> p | None \<Rightarrow> [])
                     (clampVector3 (m_pos msg)) (clampQuaternion (m_quat msg))
                     (t_or_now (m_t msg) now))
                  (Some c)))"

definition handlePong :: "relay \<Rightarrow> int \<Rightarrow> conn \<Rightarrow> relay \<times> effect list" where
  "handlePong s now c =
     (case clients s c of
        None \<Rightarrow> (s, [])
      | Some cl \<Rightarrow> (s\<lparr>clients := (clients s)(c \<mapsto> cl\<lparr>lastPing := now\<rparr>)\<rparr>, []))"

definition handleDisconnect :: "relay \<Rightarrow> int \<Rightarrow> conn \<Rightarrow> relay \<times> effect list" where
  "handleDisconnect s now c =
     (case clients s c of
        None \<Rightarrow> (s, [])
      | Some cl \<Rightarrow>
          let (s1, out) =
                (case rooms s (room cl) of
                   None \<Rightarrow> (s, [])
                 | Some rc \<Rightarrow>
                     let rc1 = set_delete c rc in
                     if length rc1 = 0 then (s\<lparr>rooms := (rooms s)(room cl := None)\<rparr>, [])
                     else
                       let s0 = s\<lparr>rooms := (rooms s)(room cl \<mapsto> rc1)\<rparr>
                       in (s0, broadcastToRoom s0 (room cl) (Leave (clientId cl) now) None))
          in (s1\<lparr>clients := (clients s1)(c := None)\<rparr>, out))"

definition handleMessage :: "relay \<Rightarrow> int \<Rightarrow> conn \<Rightarrow> message \<Rightarrow> relay \<times> effect list" where
  "handleMessage s now c msg =
     (if v msg \<noteq> JNum (Fin 1) then (s, sendError s now c ''Unsupported message version'')
      else if mtype msg = ''hello'' then handleHello s now c msg
      else if mtype msg = ''snapshot'' then handleSnapshot s now c msg
      else if mtype msg = ''event:plant'' then handlePlantEvent s now c msg
      else if mtype msg = ''pong'' then handlePong s now c
      else (s, []))"

text \<open>
  The listeners that \<open>setupServer\<close> installs: \<open>wssOnConnection\<close> on the server,
  \<open>wsOnMessage\<close> and \<open>wsOnClose\<close> on each socket. A frame that does not parse is answered with an
  error; a new connection is pinged at once. \<open>Date.now()\<close> is the argument \<open>now\<close>, read
  once for each event.
\<close>

definition wsOnMessage :: "relay \<Rightarrow> int \<Rightarrow> conn \<Rightarrow> frame \<Rightarrow> relay \<times> effect list" where
  "wsOnMessage s now c f =
     (case f of
        Malformed \<Rightarrow> (s, sendError s now c ''Invalid message format'')
      | Msg msg \<Rightarrow> handleMessage s now c msg)"

definition wssOnConnection :: "relay \<Rightarrow> conn \<Rightarrow> relay \<times> effect list" where
  "wssOnConnection s c =
     (s\<lparr>wssClients := set_add c (wssClients s), isOpen := (isOpen s)(c := True)\<rparr>, [Ping c])"

definition wsOnClose :: "relay \<Rightarrow> int \<Rightarrow> conn \<Rightarrow> relay \<times> effect list" where
  "wsOnClose s now c =
     handleDisconnect (s\<lparr>wssClients := set_delete c (wssClients s), isOpen := (isOpen s)(c := False)\<rparr>) now c"

text \<open>One sweep of \<open>startHeartbeat\<close>.\<close>

definition heartbeat :: "relay \<Rightarrow> int \<Rightarrow> effect list" where
  "heartbeat s now =
     concat (map (\<lambda>c. case clients s c of
                         None \<Rightarrow> []
                       | Some cl \<Rightarrow> if now - lastPing cl > 60000 then [Terminate c] else [Ping c])
                 (wssClients s))"

datatype event = Connection conn | Message conn frame | Close conn | Heartbeat

fun step :: "relay \<Rightarrow> int \<times> event \<Rightarrow> relay \<times> effect list" where
  "step s (now, Connection c) = wssOnConnection s c"
| "step s (now, Message c f) = wsOnMessage s now c f"
| "step s (now, Close c) = wsOnClose s now c"
| "step s (now, Heartbeat) = (s, heartbeat s now)"

fun run :: "relay \<Rightarrow> (int \<times> event) list \<Rightarrow> relay \<times> effect list" where
  "run s [] = (s, [])"
| "run s (e # es) = (let (s1, out1) = step s e; (s2, out2) = run s1 es in (s2, out1 @ out2))"

text \<open>A message with nothing but its version and type; the fields are set from it.\<close>

definition blank :: "string \<Rightarrow> message" where
  "blank ty = \<lparr>v = JNum (Fin 1), mtype = ty, m_clientId = None, m_room = None, m_t = JUndefined,
     m_head = JUndefined, m_lh = JUndefined, m_rh = JUndefined, m_plantType = None,
     m_pos = JUndefined, m_quat = JUndefined\<rparr>"

definition hello :: "string \<Rightarrow> string \<Rightarrow> message" where
  "hello cid rm = (blank ''hello'')\<lparr>m_clientId := Some cid, m_room := Some rm\<rparr>"








text \<open>The list that stands for a room's Set holds each connection once.\<close>

definition roomsDistinct :: "relay \<Rightarrow> bool" where
  "roomsDistinct s = (\<forall>r rc. rooms s r = Some rc \<longrightarrow> distinct rc)"

text \<open>The messages that are fanned out to a room.\<close>

fun is_broadcast :: "out_msg \<Rightarrow> bool" where
  "is_broadcast (Join cid ts) = True"
| "is_broadcast (Leave cid ts) = True"
| "is_broadcast (Snapshot tv h l r cid) = True"
| "is_broadcast (PlantEvent cid p ps q tv) = True"
| "is_broadcast m = False"

text \<open>The members of a room; a room that is not in the registry has none.\<close>

definition members :: "relay \<Rightarrow> string \<Rightarrow> conn list" where
  "members s rm = (case rooms s rm of None \<Rightarrow> [] | Some rc \<Rightarrow> rc)"


definition oneOpen :: relay where
  "oneOpen = fst (step MultiplayerServer (1000, Connection 0))"

definition oneInRoom :: relay where
  "oneInRoom = fst (run MultiplayerServer
     [(1000, Connection 0), (1000, Connection 1),
      (1001, Message 0 (Msg (hello ''a'' ''r1'')))])"



section \<open>Client transport\<close>

text \<open>
  The browser's WebSocket, as far as the transport uses it: its \<open>readyState\<close> and the
  frames handed to it for transmission. \<open>send\<close> throws while the socket is still
  connecting, transmits when it is open and discards the frame afterwards.
\<close>

datatype ready_state = CONNECTING | OPEN | CLOSING | CLOSED

record 's websocket =
  readyState :: ready_state
  sent :: "'s list"

definition ws_send :: "'s websocket \<Rightarrow> 's \<Rightarrow> 's websocket option" where
  "ws_send w m =
     (case readyState w of
        CONNECTING \<Rightarrow> None
      | OPEN \<Rightarrow> Some (w\<lparr>sent := sent w @ [m]\<rparr>)
      | CLOSING \<Rightarrow> Some w
      | CLOSED \<Rightarrow> Some w)"

text \<open>\<open>new WebSocket(url)\<close> throws on a URL it cannot parse.\<close>

definition newWebSocket :: "(string \<Rightarrow> bool) \<Rightarrow> string \<Rightarrow> 's websocket option" where
  "newWebSocket validUrl u = (if validUrl u then Some \<lparr>readyState = CONNECTING, sent = []\<rparr> else None)"

text \<open>The events the transport emits; what its listeners do with them is not its concern.\<close>

datatype 'p emitted_event =
    EvOpen
  | EvClose nat
  | EvError
  | EvMessage 'p
  | EvMaxReconnectAttemptsReached

datatype js_error = TypeError

text \<open>
  The transport. \<open>'s\<close> is a serialized message (the result of \<open>JSON.stringify\<close>),
  \<open>'p\<close> a parsed inbound one. \<open>timers\<close> is the table of pending timeouts, each with the
  identifier \<open>setTimeout\<close> returned (they count from 1) and its delay; \<open>emitted\<close> is the
  log of the events passed to \<open>emit\<close>.
\<close>

record ('s, 'p) transport =
  url :: string
  ws :: "'s websocket option"
  isConnecting :: bool
  isConnected :: bool
  reconnectAttempts :: nat
  maxReconnectAttempts :: nat
  reconnectDelay :: nat
  maxReconnectDelay :: nat
  messageQueue :: "'s list"
  maxQueueSize :: nat
  emitted :: "'p emitted_event list"
  reconnectTimer :: "nat option"
  timers :: "(nat \<times> nat) list"
  nextTimer :: nat

definition TransportWebSocket :: "string \<Rightarrow> ('s, 'p) transport" where
  "TransportWebSocket u =
     \<lparr>url = u, ws = None, isConnecting = False, isConnected = False, reconnectAttempts = 0,
      maxReconnectAttempts = 10, reconnectDelay = 1000, maxReconnectDelay = 30000,
      messageQueue = [], maxQueueSize = 100, emitted = [], reconnectTimer = None,
      timers = [], nextTimer = 1\<rparr>"

definition emit :: "('s, 'p) transport \<Rightarrow> 'p emitted_event \<Rightarrow> ('s, 'p) transport" where
  "emit t e = t\<lparr>emitted := emitted t @ [e]\<rparr>"

definition scheduleReconnect :: "('s, 'p) transport \<Rightarrow> ('s, 'p) transport" where
  "scheduleReconnect t =
     (if reconnectAttempts t \<ge> maxReconnectAttempts t then emit t EvMaxReconnectAttemptsReached
      else
        let delay = min (reconnectDelay t * 2 ^ reconnectAttempts t) (maxReconnectDelay t)
        in t\<lparr>timers := timers t @ [(nextTimer t, delay)],
             reconnectTimer := Some (nextTimer t),
             nextTimer := nextTimer t + 1\<rparr>)"

definition connect :: "(string \<Rightarrow> bool) \<Rightarrow> ('s, 'p) transport \<Rightarrow> ('s, 'p) transport" where
  "connect validUrl t =
     (if isConnecting t \<or> isConnected t then t
      else
        let t1 = t\<lparr>isConnecting := True\<rparr>
        in (case newWebSocket validUrl (url t1) of
              Some w \<Rightarrow> t1\<lparr>ws := Some w\<rparr>
            | None \<Rightarrow> scheduleReconnect t1))"

text \<open>The callback that \<open>scheduleReconnect\<close> hands to \<open>setTimeout\<close>.\<close>

definition reconnectCallback :: "(string \<Rightarrow> bool) \<Rightarrow> ('s, 'p) transport \<Rightarrow> ('s, 'p) transport" where
  "reconnectCallback validUrl t =
     connect validUrl (t\<lparr>reconnectAttempts := reconnectAttempts t + 1, reconnectTimer := None\<rparr>)"

text \<open>
  \<open>disconnect\<close> clears the pending timer, detaches the listeners and closes the socket:
  the socket is no longer the transport's, and its later events do not reach it.
\<close>

definition disconnect :: "('s, 'p) transport \<Rightarrow> ('s, 'p) transport" where
  "disconnect t =
     (let t1 = (case reconnectTimer t of
                  None \<Rightarrow> t
                | Some i \<Rightarrow> t\<lparr>timers := filter (\<lambda>(j, d). j \<noteq> i) (timers t), reconnectTimer := None\<rparr>);
          t2 = (case ws t1 of None \<Rightarrow> t1 | Some w \<Rightarrow> t1\<lparr>ws := None\<rparr>)
      in t2\<lparr>isConnecting := False, isConnected := False, messageQueue := []\<rparr>)"

definition queueMessage :: "('s, 'p) transport \<Rightarrow> 's \<Rightarrow> ('s, 'p) transport" where
  "queueMessage t messageStr =
     (let q = (if length (messageQueue t) \<ge> maxQueueSize t then tl (messageQueue t)
               else messageQueue t)
      in t\<lparr>messageQueue := q @ [messageStr]\<rparr>)"

text \<open>
  \<open>send\<close> of the transport. Reading \<open>this.ws.readyState\<close> when there is no socket throws,
  outside the \<open>try\<close>.
\<close>

definition send_transport ::
  "('m \<Rightarrow> 's) \<Rightarrow> ('s, 'p) transport \<Rightarrow> 'm \<Rightarrow> js_error + (bool \<times> ('s, 'p) transport)" where
  "send_transport stringify t message =
     (let messageStr = stringify message in
      if isConnected t then
        (case ws t of
           None \<Rightarrow> Inl TypeError
         | Some w \<Rightarrow>
             if readyState w = OPEN then
               (case ws_send w messageStr of
                  Some w1 \<Rightarrow> Inr (True, t\<lparr>ws := Some w1\<rparr>)
                | None \<Rightarrow> Inr (False, queueMessage t messageStr))
             else Inr (False, queueMessage t messageStr))
      else Inr (False, queueMessage t messageStr))"

text \<open>
  The loop of \<open>flushQueue\<close> on the socket and the queue: it takes the head of the queue,
  and on a failed send puts it back and stops.
\<close>

fun flush :: "'s websocket option \<Rightarrow> 's list \<Rightarrow> 's websocket option \<times> 's list" where
  "flush w [] = (w, [])"
| "flush None (m # q) = (None, m # q)"
| "flush (Some w) (m # q) =
     (case ws_send w m of
        None \<Rightarrow> (Some w, m # q)
      | Some w1 \<Rightarrow> flush (Some w1) q)"

definition flushQueue :: "('s, 'p) transport \<Rightarrow> ('s, 'p) transport" where
  "flushQueue t =
     (if isConnected t then
        (let (w, q) = flush (ws t) (messageQueue t) in t\<lparr>ws := w, messageQueue := q\<rparr>)
      else t)"

definition onOpen :: "('s, 'p) transport \<Rightarrow> ('s, 'p) transport" where
  "onOpen t =
     emit (flushQueue (t\<lparr>isConnecting := False, isConnected := True,
                         reconnectAttempts := 0, reconnectDelay := 1000\<rparr>)) EvOpen"

definition onClose :: "('s, 'p) transport \<Rightarrow> nat \<Rightarrow> ('s, 'p) transport" where
  "onClose t code =
     (let t1 = emit (t\<lparr>isConnecting := False, isConnected := False\<rparr>) (EvClose code)
      in if code \<noteq> 1000 then scheduleReconnect t1 else t1)"

definition onError :: "('s, 'p) transport \<Rightarrow> ('s, 'p) transport" where
  "onError t = emit t EvError"

text \<open>\<open>onMessage\<close>: \<open>None\<close> is a frame that \<open>JSON.parse\<close> rejects.\<close>

definition onMessage :: "('s, 'p) transport \<Rightarrow> 'p option \<Rightarrow> ('s, 'p) transport" where
  "onMessage t data = (case data of None \<Rightarrow> t | Some message \<Rightarrow> emit t (EvMessage message))"

text \<open>
  What happens to a transport: calls of its methods by its owner, events of its socket
  (which change the socket's state and run the listener), and the expiry of a timeout.
  A call of \<open>send\<close> that throws leaves the transport as it was.
\<close>

datatype ('m, 'p) transport_op =
    Connect
  | Disconnect
  | SendMsg 'm
  | SocketOpens
  | SocketCloses nat
  | SocketError
  | SocketFrame "'p option"
  | TimerFires nat

fun transport_step ::
  "(string \<Rightarrow> bool) \<Rightarrow> ('m \<Rightarrow> 's) \<Rightarrow> ('s, 'p) transport \<Rightarrow> ('m, 'p) transport_op \<Rightarrow> ('s, 'p) transport" where
  "transport_step validUrl stringify t Connect = connect validUrl t"
| "transport_step validUrl stringify t Disconnect = disconnect t"
| "transport_step validUrl stringify t (SendMsg m) =
     (case send_transport stringify t m of Inl e \<Rightarrow> t | Inr (r, t1) \<Rightarrow> t1)"
| "transport_step validUrl stringify t SocketOpens =
     (case ws t of
        None \<Rightarrow> t
      | Some w \<Rightarrow> if readyState w = CONNECTING then onOpen (t\<lparr>ws := Some (w\<lparr>readyState := OPEN\<rparr>)\<rparr>) else t)"
| "transport_step validUrl stringify t (SocketCloses code) =
     (case ws t of
        None \<Rightarrow> t
      | Some w \<Rightarrow> if readyState w = CLOSED then t
                  else onClose (t\<lparr>ws := Some (w\<lparr>readyState := CLOSED\<rparr>)\<rparr>) code)"
| "transport_step validUrl stringify t SocketError = (case ws t of None \<Rightarrow> t | Some w \<Rightarrow> onError t)"
| "transport_step validUrl stringify t (SocketFrame data) =
     (case ws t of
        None \<Rightarrow> t
      | Some w \<Rightarrow> if readyState w = OPEN then onMessage t data else t)"
| "transport_step validUrl stringify t (TimerFires i) =
     (if i \<in> fst ` set (timers t)
      then reconnectCallback validUrl (t\<lparr>timers := filter (\<lambda>(j, d). j \<noteq> i) (timers t)\<rparr>)
      else t)"

fun transport_run ::
  "(string \<Rightarrow> bool) \<Rightarrow> ('m \<Rightarrow> 's) \<Rightarrow> ('s, 'p) transport \<Rightarrow> ('m, 'p) transport_op list \<Rightarrow> ('s, 'p) transport" where
  "transport_run validUrl stringify t [] = t"
| "transport_run validUrl stringify t (x # xs) =
     transport_run validUrl stringify (transport_step validUrl stringify t x) xs"

text \<open>The invariant of the queue: its capacity is the constructor's, and it holds.\<close>

definition queueBounded :: "('s, 'p) transport \<Rightarrow> bool" where
  "queueBounded t = (maxQueueSize t = 100 \<and> length (messageQueue t) \<le> maxQueueSize t)"

text \<open>The last \<open>n\<close> elements of a list: a queue of capacity \<open>n\<close> that drops its oldest entries.\<close>

definition keepLast :: "nat \<Rightarrow> 'a list \<Rightarrow> 'a list" where
  "keepLast n xs = drop (length xs - n) xs"

text \<open>
  A connection attempt that fails \<open>k\<close> times over: the socket closes abnormally (code
  1006) and the reconnect timer, the \<open>i\<close>-th one set, fires.
\<close>

fun failures :: "nat \<Rightarrow> ('m, 'p) transport_op list" where
  "failures 0 = []"
| "failures (Suc k) = failures k @ [SocketCloses 1006, TimerFires (Suc k)]"

text \<open>The transport after \<open>connect\<close> and \<open>k\<close> failed attempts, waiting for the next socket.\<close>

definition failing :: "string \<Rightarrow> nat \<Rightarrow> ('s, 'p) transport" where
  "failing u k = \<lparr>url = u, ws = Some \<lparr>readyState = CONNECTING, sent = []\<rparr>, isConnecting = True,
      isConnected = False, reconnectAttempts = k, maxReconnectAttempts = 10,
      reconnectDelay = 1000, maxReconnectDelay = 30000, messageQueue = [], maxQueueSize = 100,
      emitted = replicate k (EvClose 1006), reconnectTimer = None, timers = [],
      nextTimer = Suc k\<rparr>"

definition anyUrl :: "string \<Rightarrow> bool" where
  "anyUrl u = True"

text \<open>A transport of strings on which \<open>connect\<close> was called; every URL is taken as valid.\<close>

definition connectingTransport :: "(string, string) transport" where
  "connectingTransport =
     transport_run anyUrl (\<lambda>m. m) (TransportWebSocket ''ws://localhost:8090'') [Connect]"

section \<open>Sync coordinator\<close>

subsection \<open>Entities and the reactive query\<close>

text \<open>
  The entity-component store is the ecsy library, a dependency that is not among the
  repository's sources. It is modelled as the library documents and implements it, for
  the one query of \<open>MultiplayerSystem.queries\<close> whose \<open>added\<close> list the system reads:
  \<open>newlyPlanted\<close>, with components \<open>PlantGrowingComponent\<close> and \<open>Object3DComponent\<close>
  and \<open>Not(Networked)\<close>.
  \<^item> \<open>addComponent\<close> takes effect at once and updates the queries before it returns;
  \<^item> an entity that comes to match a query is appended to the query's results, and the
    listener behind \<open>listen: { added: true }\<close> appends it to the \<open>added\<close> list;
  \<^item> an entity that gets a component the query excludes is taken out of the results;
    the \<open>added\<close> list is not touched by that;
  \<^item> the \<open>added\<close> list is emptied after each \<open>execute\<close> of the system.
\<close>

datatype object3d = Object3D nat vec3 quat

record networked_player =
  np_clientId :: string
  headGroup :: nat
  leftHandGroup :: nat
  rightHandGroup :: nat
  targetHeadPosition :: vec3
  targetHeadRotation :: quat
  targetLeftHandPosition :: vec3
  targetLeftHandRotation :: quat
  targetRightHandPosition :: vec3
  targetRightHandRotation :: quat
  np_lastSnapshotTime :: jsval

datatype component =
    Object3DComponent object3d
  | PlantGrowingComponent string
  | Networked
  | NetworkedPlayerComponent networked_player

datatype component_type = TObject3D | TPlantGrowing | TNetworked | TNetworkedPlayer

fun typeOf :: "component \<Rightarrow> component_type" where
  "typeOf (Object3DComponent ob) = TObject3D"
| "typeOf (PlantGrowingComponent pt) = TPlantGrowing"
| "typeOf Networked = TNetworked"
| "typeOf (NetworkedPlayerComponent np) = TNetworkedPlayer"

definition hasComponent :: "component list \<Rightarrow> component_type \<Rightarrow> bool" where
  "hasComponent comps ty = (ty \<in> set (map typeOf comps))"

definition getComponent :: "component list \<Rightarrow> component_type \<Rightarrow> component option" where
  "getComponent comps ty = find (\<lambda>c. typeOf c = ty) comps"

text \<open>Whether an entity with these components matches the query \<open>newlyPlanted\<close>.\<close>

definition matchNewlyPlanted :: "component list \<Rightarrow> bool" where
  "matchNewlyPlanted comps =
     (hasComponent comps TPlantGrowing \<and> hasComponent comps TObject3D
      \<and> \<not> hasComponent comps TNetworked)"

text \<open>The messages the coordinator hands to the transport.\<close>

datatype client_msg =
    ClientHello "string option" string
  | ClientSnapshot rat pose pose pose
  | ClientPlant string vec3 quat int

text \<open>
  The system together with the world it works on. \<open>entities\<close> holds the components of
  each entity, \<open>scene\<close> the objects added to the scene, \<open>newlyPlanted_results\<close> and
  \<open>newlyPlanted_added\<close> the query. \<open>remotePlayers\<close> is the Map from a remote clientId to
  its entity, as a list of entries with distinct keys. The messages received are the
  relay's.
\<close>

record 's mpsystem =
  isEnabled :: bool
  ms_transport :: "('s, out_msg) transport option"
  ms_clientId :: "string option"
  ms_room :: string
  remotePlayers :: "(string \<times> nat) list"
  lastSnapshotTime :: rat
  snapshotInterval :: rat
  entities :: "nat \<rightharpoonup> component list"
  nextEntity :: nat
  scene :: "nat list"
  nextObject :: nat
  newlyPlanted_results :: "nat list"
  newlyPlanted_added :: "nat list"

definition MultiplayerSystem :: "'s mpsystem" where
  "MultiplayerSystem =
     \<lparr>isEnabled = False, ms_transport = None, ms_clientId = None, ms_room = ''default'',
      remotePlayers = [], lastSnapshotTime = 0, snapshotInterval = 50,
      entities = Map.empty, nextEntity = 0, scene = [], nextObject = 0,
      newlyPlanted_results = [], newlyPlanted_added = []\<rparr>"

definition createEntity :: "'s mpsystem \<Rightarrow> nat \<times> 's mpsystem" where
  "createEntity s =
     (nextEntity s, s\<lparr>entities := (entities s)(nextEntity s \<mapsto> []), nextEntity := nextEntity s + 1\<rparr>)"

definition addComponent :: "'s mpsystem \<Rightarrow> nat \<Rightarrow> component \<Rightarrow> 's mpsystem" where
  "addComponent s e c =
     (case entities s e of
        None \<Rightarrow> s
      | Some comps \<Rightarrow>
          if hasComponent comps (typeOf c) then s
          else
            let comps1 = comps @ [c];
                s1 = s\<lparr>entities := (entities s)(e \<mapsto> comps1)\<rparr>
            in if typeOf c = TNetworked \<and> e \<in> set (newlyPlanted_results s1)
               then s1\<lparr>newlyPlanted_results := removeAll e (newlyPlanted_results s1)\<rparr>
               else if (typeOf c = TPlantGrowing \<or> typeOf c = TObject3D)
                       \<and> matchNewlyPlanted comps1 \<and> e \<notin> set (newlyPlanted_results s1)
               then s1\<lparr>newlyPlanted_results := newlyPlanted_results s1 @ [e],
                        newlyPlanted_added :=
                          (if e \<in> set (newlyPlanted_added s1) then newlyPlanted_added s1
                           else newlyPlanted_added s1 @ [e])\<rparr>
               else s1)"

text \<open>\<open>entity.remove()\<close>\<close>

definition removeEntity :: "'s mpsystem \<Rightarrow> nat \<Rightarrow> 's mpsystem" where
  "removeEntity s e =
     s\<lparr>entities := (entities s)(e := None),
       newlyPlanted_results := removeAll e (newlyPlanted_results s)\<rparr>"

text \<open>What the system runner does after each \<open>execute\<close>.\<close>

definition clearEvents :: "'s mpsystem \<Rightarrow> 's mpsystem" where
  "clearEvents s = s\<lparr>newlyPlanted_added := []\<rparr>"

subsection \<open>The system\<close>

text \<open>
  \<open>init\<close>. What \<open>checkMultiplayerEnabled\<close>, \<open>generateClientId\<close>, \<open>getRoom\<close> and
  \<open>getServerUrl\<close> read from the page and the random generator is given: \<open>enabled\<close>,
  \<open>cid\<close>, \<open>rm\<close> and \<open>serverUrl\<close>.
\<close>

definition init ::
  "(string \<Rightarrow> bool) \<Rightarrow> bool \<Rightarrow> string \<Rightarrow> string \<Rightarrow> string \<Rightarrow> 's mpsystem \<Rightarrow> 's mpsystem" where
  "init validUrl enabled cid rm serverUrl s =
     (if enabled
      then s\<lparr>isEnabled := True, ms_clientId := Some cid, ms_room := rm,
             ms_transport := Some (connect validUrl (TransportWebSocket serverUrl))\<rparr>
      else s\<lparr>isEnabled := False\<rparr>)"

text \<open>
  \<open>createRemotePlayer\<close>. The avatar is three groups added to the scene; the scene is
  taken as present.
\<close>

definition createRemotePlayer :: "'s mpsystem \<Rightarrow> string \<Rightarrow> nat \<times> 's mpsystem" where
  "createRemotePlayer s cid =
     (let (entity, s1) = createEntity s;
          g = nextObject s1;
          s2 = s1\<lparr>scene := scene s1 @ [g, g + 1, g + 2], nextObject := g + 3\<rparr>;
          s3 = addComponent s2 entity (NetworkedPlayerComponent
                 \<lparr>np_clientId = cid, headGroup = g, leftHandGroup = g + 1, rightHandGroup = g + 2,
                  targetHeadPosition = Vec3 (Fin 0) (Fin 0) (Fin 0),
                  targetHeadRotation = Quat (Fin 0) (Fin 0) (Fin 0) (Fin 1),
                  targetLeftHandPosition = Vec3 (Fin 0) (Fin 0) (Fin 0),
                  targetLeftHandRotation = Quat (Fin 0) (Fin 0) (Fin 0) (Fin 1),
                  targetRightHandPosition = Vec3 (Fin 0) (Fin 0) (Fin 0),
                  targetRightHandRotation = Quat (Fin 0) (Fin 0) (Fin 0) (Fin 1),
                  np_lastSnapshotTime = JNum (Fin 0)\<rparr>)
      in (entity, s3\<lparr>remotePlayers := AList.update cid entity (remotePlayers s3)\<rparr>))"

definition removeRemotePlayer :: "'s mpsystem \<Rightarrow> string \<Rightarrow> 's mpsystem" where
  "removeRemotePlayer s cid =
     (case map_of (remotePlayers s) cid of
        None \<Rightarrow> s
      | Some entity \<Rightarrow>
          let s1 = (case entities s entity of
                      None \<Rightarrow> s
                    | Some comps \<Rightarrow>
                        (case getComponent comps TNetworkedPlayer of
                           Some (NetworkedPlayerComponent np) \<Rightarrow>
                             s\<lparr>scene := filter (\<lambda>g. g \<noteq> headGroup np \<and> g \<noteq> leftHandGroup np
                                                     \<and> g \<noteq> rightHandGroup np) (scene s)\<rparr>
                         | _ \<Rightarrow> s));
              s2 = removeEntity s1 entity
          in s2\<lparr>remotePlayers := AList.delete cid (remotePlayers s2)\<rparr>)"

definition handlePlayerJoin :: "'s mpsystem \<Rightarrow> string \<Rightarrow> 's mpsystem" where
  "handlePlayerJoin s cid =
     (if Some cid = ms_clientId s then s
      else if map_of (remotePlayers s) cid = None then snd (createRemotePlayer s cid)
      else s)"

definition handlePlayerLeave :: "'s mpsystem \<Rightarrow> string \<Rightarrow> 's mpsystem" where
  "handlePlayerLeave s cid =
     (if Some cid = ms_clientId s then s else removeRemotePlayer s cid)"

text \<open>
  \<open>updateRemotePlayerTransform\<close>, on the component of the entity: the three poses of a
  snapshot from the relay are always present.
\<close>

definition updateRemotePlayerTransform ::
  "'s mpsystem \<Rightarrow> int \<Rightarrow> nat \<Rightarrow> jsval \<Rightarrow> pose \<Rightarrow> pose \<Rightarrow> pose \<Rightarrow> 's mpsystem" where
  "updateRemotePlayerTransform s now entity tv h l r =
     (case entities s entity of
        None \<Rightarrow> s
      | Some comps \<Rightarrow>
          s\<lparr>entities := (entities s)(entity \<mapsto>
               map (\<lambda>c. case c of
                      NetworkedPlayerComponent np \<Rightarrow>
                        NetworkedPlayerComponent
                          (np\<lparr>targetHeadPosition := pose_p h, targetHeadRotation := pose_q h,
                              targetLeftHandPosition := pose_p l, targetLeftHandRotation := pose_q l,
                              targetRightHandPosition := pose_p r, targetRightHandRotation := pose_q r,
                              np_lastSnapshotTime := t_or_now tv now\<rparr>)
                    | _ \<Rightarrow> c) comps)\<rparr>)"

definition handleSnapshot_mp ::
  "'s mpsystem \<Rightarrow> int \<Rightarrow> string \<Rightarrow> jsval \<Rightarrow> pose \<Rightarrow> pose \<Rightarrow> pose \<Rightarrow> 's mpsystem" where
  "handleSnapshot_mp s now cid tv h l r =
     (if Some cid = ms_clientId s then s
      else
        let (entity, s1) = (case map_of (remotePlayers s) cid of
                              Some e \<Rightarrow> (e, s)
                            | None \<Rightarrow> createRemotePlayer s cid)
        in updateRemotePlayerTransform s1 now entity tv h l r)"

definition handleRemotePlantEvent ::
  "'s mpsystem \<Rightarrow> string \<Rightarrow> string \<Rightarrow> vec3 \<Rightarrow> quat \<Rightarrow> 's mpsystem" where
  "handleRemotePlantEvent s cid plantType ps qt =
     (if Some cid = ms_clientId s then s
      else
        let ob = Object3D (nextObject s) ps qt;
            s1 = s\<lparr>scene := scene s @ [nextObject s], nextObject := nextObject s + 1\<rparr>;
            (e, s2) = createEntity s1;
            s3 = addComponent s2 e (Object3DComponent ob);
            s4 = addComponent s3 e (PlantGrowingComponent plantType)
        in addComponent s4 e Networked)"

definition handleMessage_mp :: "'s mpsystem \<Rightarrow> int \<Rightarrow> out_msg \<Rightarrow> 's mpsystem" where
  "handleMessage_mp s now msg =
     (case msg of
        HelloAck cid rm \<Rightarrow> s
      | Join cid ts \<Rightarrow> handlePlayerJoin s cid
      | Leave cid ts \<Rightarrow> handlePlayerLeave s cid
      | Snapshot tv h l r cid \<Rightarrow> handleSnapshot_mp s now cid tv h l r
      | PlantEvent cid plantType ps qt tv \<Rightarrow> handleRemotePlantEvent s cid plantType ps qt
      | ErrorMsg err ts \<Rightarrow> s)"

text \<open>
  \<open>transport.send\<close> from the system: the transport is replaced by the one after the
  call; the second component is the exception, if the call threw.
\<close>

definition sendVia ::
  "(client_msg \<Rightarrow> 's) \<Rightarrow> 's mpsystem \<Rightarrow> client_msg \<Rightarrow> 's mpsystem \<times> js_error option" where
  "sendVia stringify s m =
     (case ms_transport s of
        None \<Rightarrow> (s, Some TypeError)
      | Some t \<Rightarrow>
          (case send_transport stringify t m of
             Inl e \<Rightarrow> (s, Some e)
           | Inr (r, t1) \<Rightarrow> (s\<lparr>ms_transport := Some t1\<rparr>, None)))"

text \<open>
  \<open>publishSnapshot\<close>. \<open>poses\<close> is what the local player and the two controllers give:
  \<open>None\<close> when the player entity, its state or one of the controllers is missing.
\<close>

definition publishSnapshot ::
  "(client_msg \<Rightarrow> 's) \<Rightarrow> 's mpsystem \<Rightarrow> rat \<Rightarrow> (pose \<times> pose \<times> pose) option
     \<Rightarrow> 's mpsystem \<times> js_error option" where
  "publishSnapshot stringify s time poses =
     (if time - lastSnapshotTime s < snapshotInterval s then (s, None)
      else
        (case poses of
           None \<Rightarrow> (s, None)
         | Some (h, l, r) \<Rightarrow>
             (case sendVia stringify s (ClientSnapshot time h l r) of
                (s1, Some e) \<Rightarrow> (s1, Some e)
              | (s1, None) \<Rightarrow> (s1\<lparr>lastSnapshotTime := time\<rparr>, None))))"

text \<open>
  The loop of \<open>execute\<close> over \<open>queries.newlyPlanted.added\<close>; reading a component the
  entity does not have throws.
\<close>

fun broadcastPlanted ::
  "(client_msg \<Rightarrow> 's) \<Rightarrow> int \<Rightarrow> 's mpsystem \<Rightarrow> nat list \<Rightarrow> 's mpsystem \<times> js_error option" where
  "broadcastPlanted stringify now s [] = (s, None)"
| "broadcastPlanted stringify now s (e # es) =
     (case entities s e of
        None \<Rightarrow> (s, Some TypeError)
      | Some comps \<Rightarrow>
          (case (getComponent comps TPlantGrowing, getComponent comps TObject3D) of
             (Some (PlantGrowingComponent plantType), Some (Object3DComponent (Object3D i ps qt))) \<Rightarrow>
               (case sendVia stringify s (ClientPlant plantType ps qt now) of
                  (s1, Some err) \<Rightarrow> (s1, Some err)
                | (s1, None) \<Rightarrow> broadcastPlanted stringify now s1 es)
           | _ \<Rightarrow> (s, Some TypeError)))"

text \<open>
  \<open>execute\<close>. The interpolation of the remote avatars between the two steps moves the
  groups in the scene by floating-point \<open>lerp\<close> and \<open>slerp\<close>; it reads and writes nothing
  that is kept here and is left out.
\<close>

definition execute ::
  "(client_msg \<Rightarrow> 's) \<Rightarrow> int \<Rightarrow> 's mpsystem \<Rightarrow> rat \<Rightarrow> (pose \<times> pose \<times> pose) option
     \<Rightarrow> 's mpsystem \<times> js_error option" where
  "execute stringify now s time poses =
     (if isEnabled s \<and> (case ms_transport s of None \<Rightarrow> False | Some t \<Rightarrow> isConnected t)
      then
        (case publishSnapshot stringify s time poses of
           (s1, Some e) \<Rightarrow> (s1, Some e)
         | (s1, None) \<Rightarrow> broadcastPlanted stringify now s1 (newlyPlanted_added s1))
      else (s, None))"

text \<open>One frame of the system runner: \<open>execute\<close>, then \<open>clearEvents\<close> unless it threw.\<close>

definition frame ::
  "(client_msg \<Rightarrow> 's) \<Rightarrow> int \<Rightarrow> 's mpsystem \<Rightarrow> rat \<Rightarrow> (pose \<times> pose \<times> pose) option \<Rightarrow> 's mpsystem" where
  "frame stringify now s time poses =
     (case execute stringify now s time poses of
        (s1, None) \<Rightarrow> clearEvents s1
      | (s1, Some e) \<Rightarrow> s1)"

text \<open>
  The listeners of \<open>setupTransportListeners\<close>: on \<open>open\<close> the hello is sent, on
  \<open>message\<close> the message is handled. \<open>emit\<close> catches what a listener throws.
\<close>

definition listener ::
  "(client_msg \<Rightarrow> 's) \<Rightarrow> int \<Rightarrow> out_msg emitted_event \<Rightarrow> 's mpsystem \<Rightarrow> 's mpsystem" where
  "listener stringify now ev s =
     (case ev of
        EvOpen \<Rightarrow> fst (sendVia stringify s (ClientHello (ms_clientId s) (ms_room s)))
      | EvMessage msg \<Rightarrow> handleMessage_mp s now msg
      | _ \<Rightarrow> s)"

text \<open>
  Something happens to the system's transport (an event of its socket, a timeout): the
  transport takes its step, and the listeners run on the events it emitted.
\<close>

definition transportEvent ::
  "(string \<Rightarrow> bool) \<Rightarrow> (client_msg \<Rightarrow> 's) \<Rightarrow> int \<Rightarrow> 's mpsystem
     \<Rightarrow> (client_msg, out_msg) transport_op \<Rightarrow> 's mpsystem" where
  "transportEvent validUrl stringify now s x =
     (case ms_transport s of
        None \<Rightarrow> s
      | Some t \<Rightarrow>
          let t1 = transport_step validUrl stringify t x
          in fold (listener stringify now) (drop (length (emitted t)) (emitted t1))
               (s\<lparr>ms_transport := Some t1\<rparr>))"

text \<open>\<open>onStop\<close>\<close>

definition onStop :: "'s mpsystem \<Rightarrow> 's mpsystem" where
  "onStop s =
     (let s1 = (case ms_transport s of
                  None \<Rightarrow> s
                | Some t \<Rightarrow> s\<lparr>ms_transport := Some (disconnect t)\<rparr>)
      in fold (\<lambda>cid s2. removeRemotePlayer s2 cid) (map fst (remotePlayers s1)) s1)"

datatype client_op =
    TransportOp "(client_msg, out_msg) transport_op"
  | Frame rat "(pose \<times> pose \<times> pose) option"
  | Stop

fun client_step ::
  "(string \<Rightarrow> bool) \<Rightarrow> (client_msg \<Rightarrow> 's) \<Rightarrow> 's mpsystem \<Rightarrow> int \<times> client_op \<Rightarrow> 's mpsystem" where
  "client_step validUrl stringify s (now, TransportOp x) = transportEvent validUrl stringify now s x"
| "client_step validUrl stringify s (now, Frame time poses) = frame stringify now s time poses"
| "client_step validUrl stringify s (now, Stop) = onStop s"

fun client_run ::
  "(string \<Rightarrow> bool) \<Rightarrow> (client_msg \<Rightarrow> 's) \<Rightarrow> 's mpsystem \<Rightarrow> (int \<times> client_op) list \<Rightarrow> 's mpsystem" where
  "client_run validUrl stringify s [] = s"
| "client_run validUrl stringify s (x # xs) =
     client_run validUrl stringify (client_step validUrl stringify s x) xs"

text \<open>The client a fanned-out message is about: its \<open>clientId\<close> field.\<close>

fun senderOf :: "out_msg \<Rightarrow> string option" where
  "senderOf (Join cid ts) = Some cid"
| "senderOf (Leave cid ts) = Some cid"
| "senderOf (Snapshot tv h l r cid) = Some cid"
| "senderOf (PlantEvent cid plantType ps qt tv) = Some cid"
| "senderOf msg = None"

text \<open>
  The invariant of the coordinator for the local client \<open>c\<close>: neither the map of remote
  players nor any avatar component is for \<open>c\<close>.
\<close>

definition localAbsent :: "string \<Rightarrow> 's mpsystem \<Rightarrow> bool" where
  "localAbsent c s =
     (ms_clientId s = Some c \<and> map_of (remotePlayers s) c = None
      \<and> (\<forall>e comps np. entities s e = Some comps \<longrightarrow> NetworkedPlayerComponent np \<in> set comps
            \<longrightarrow> np_clientId np \<noteq> c))"

text \<open>
  A client a in room r1 whose socket has opened and that has received the planting of
  a rose by client b.
\<close>

definition plantByB :: out_msg where
  "plantByB = PlantEvent ''b'' ''rose'' (Vec3 (Fin 1) (Fin 0) (Fin 2))
                (Quat (Fin 0) (Fin 0) (Fin 0) (Fin 1)) (JNum (Fin 5000))"

definition plantReceived :: "client_msg mpsystem" where
  "plantReceived =
     client_run anyUrl (\<lambda>m. m)
       (init anyUrl True ''a'' ''r1'' ''ws://localhost:8090'' MultiplayerSystem)
       [(1000, TransportOp SocketOpens), (5001, TransportOp (SocketFrame (Some plantByB)))]"

text \<open>
  The events of a client a whose socket opens and which then receives a join for client b
  and, from a relay that echoes or another session that uses its identifier, a join and a
  snapshot for a itself.
\<close>

definition echoedToA :: "(int \<times> client_op) list" where
  "echoedToA =
     [(1000, TransportOp SocketOpens),
      (2000, TransportOp (SocketFrame (Some (Join ''b'' 1990)))),
      (2001, TransportOp (SocketFrame (Some (Join ''a'' 1991)))),
      (2002, TransportOp (SocketFrame (Some
         (Snapshot (JNum (Fin 7))
            (Pose (Vec3 (Fin 1) (Fin 2) (Fin 3)) (Quat (Fin 0) (Fin 0) (Fin 0) (Fin 1)))
            (Pose (Vec3 (Fin 1) (Fin 2) (Fin 3)) (Quat (Fin 0) (Fin 0) (Fin 0) (Fin 1)))
            (Pose (Vec3 (Fin 1) (Fin 2) (Fin 3)) (Quat (Fin 0) (Fin 0) (Fin 0) (Fin 1)))
            ''a''))))]"

section \<open>Sanitizer: a vector with a missing component\<close>

text \<open>
  C2. \<open>clampVector3\<close> and \<open>clampQuaternion\<close> test the type of the \<open>x\<close> component only.
  For the payload \<open>{"x": 1}\<close>, which has no \<open>y\<close> and no \<open>z\<close>, the result is not the
  zero vector and its \<open>y\<close> and \<open>z\<close> are NaN, outside every range; the quaternion
  \<open>{"x": 1}\<close> likewise gives NaN in \<open>y\<close>, \<open>z\<close> and \<open>w\<close> instead of the identity.
\<close>

theorem clamp_missing_component:
  "clampVector3 (JObj [(''x'', JNum (Fin 1))]) = Vec3 (Fin 1) NaN NaN
   \<and> clampQuaternion (JObj [(''x'', JNum (Fin 1))]) = Quat (Fin 1) NaN NaN NaN"
  by code_simp

section \<open>Room registry: a second hello leaves an empty room behind\<close>

text \<open>
  C3. Connection 0 joins room r1 and then sends a second hello for room r2.
  \<open>cleanupClient\<close> takes the connection out of r1 but, unlike \<open>handleDisconnect\<close>, does
  not delete the room that became empty: r1 stays in the registry with no member.
\<close>

theorem rehello_leaves_empty_room:
  "rooms (fst (run MultiplayerServer
      [(1000, Connection 0),
       (1001, Message 0 (Msg (hello ''a'' ''r1''))),
       (1002, Message 0 (Msg (hello ''a'' ''r2'')))])) ''r1'' = Some []"
  by (simp add: MultiplayerServer_def wssOnConnection_def wsOnMessage_def handleMessage_def
      handleHello_def cleanupClient_def hello_def blank_def set_add_def set_delete_def
      broadcastToRoom_def send_def Let_def)

section \<open>Relay: fan-out, sessions and the rate limit\<close>

text \<open>The states to evaluate on.\<close>

lemmas relay_eval = MultiplayerServer_def wssOnConnection_def wsOnMessage_def handleMessage_def
      handleHello_def cleanupClient_def hello_def blank_def set_add_def set_delete_def
      broadcastToRoom_def send_def Let_def

lemma oneOpen_facts: "clients oneOpen 0 = None" "isOpen oneOpen 0"
  by (simp_all add: oneOpen_def relay_eval)

lemma oneInRoom_facts: "members oneInRoom ''r1'' = [0]" "isOpen oneInRoom 0" "isOpen oneInRoom 1"
  by (simp_all add: oneInRoom_def members_def relay_eval)







lemma Send_in_send: "Send d m \<in> set (send s c msg) \<longleftrightarrow> d = c \<and> m = msg \<and> isOpen s c"
  by (auto simp: send_def)

lemma Send_in_sendError:
  "Send d m \<in> set (sendError s now c err) \<longleftrightarrow> d = c \<and> m = ErrorMsg err now \<and> isOpen s c"
  by (auto simp: sendError_def send_def)

lemma Send_in_broadcast:
  "Send d m \<in> set (broadcastToRoom s r msg ex) \<longleftrightarrow>
     m = msg \<and> d \<in> set (members s r) \<and> Some d \<noteq> ex \<and> isOpen s d"
  by (auto simp: broadcastToRoom_def members_def split: option.splits)

lemma isOpen_cleanupClient: "isOpen (cleanupClient s c) = isOpen s"
  by (simp add: cleanupClient_def Let_def split: option.splits)

lemma handleHello_result:
  assumes "m_clientId msg = Some cid" "cid \<noteq> []"
  defines "rm \<equiv> (case m_room msg of None \<Rightarrow> ''default'' | Some r \<Rightarrow> r)"
  shows "isOpen (fst (handleHello s now c msg)) = isOpen s"
    and "members (fst (handleHello s now c msg)) rm = set_add c (members (cleanupClient s c) rm)"
    and "snd (handleHello s now c msg) =
          broadcastToRoom (fst (handleHello s now c msg)) rm (Join cid now) (Some c)
          @ send (fst (handleHello s now c msg)) c (HelloAck cid rm)"
  using assms
  by (auto simp: handleHello_def Let_def members_def isOpen_cleanupClient split: option.splits)

lemma members_cleanupClient:
  "set (members (cleanupClient s c) r) - {c} = set (members s r) - {c}"
  by (auto simp: cleanupClient_def Let_def members_def set_delete_def split: option.splits)

lemma set_set_add: "set (set_add c cs) = insert c (set cs)"
  by (auto simp: set_add_def)

lemma Send_in_handleSnapshot:
  "Send d m \<in> set (snd (handleSnapshot s now c msg)) \<Longrightarrow> is_broadcast m \<Longrightarrow> d \<noteq> c"
  by (auto simp: handleSnapshot_def Let_def Send_in_sendError Send_in_broadcast sanitizeSnapshot_def
      split: option.splits if_splits)

lemma Send_in_handlePlantEvent:
  "Send d m \<in> set (snd (handlePlantEvent s now c msg)) \<Longrightarrow> is_broadcast m \<Longrightarrow> d \<noteq> c"
  by (auto simp: handlePlantEvent_def Let_def Send_in_sendError Send_in_broadcast
      split: option.splits if_splits)

lemma Send_in_handleHello:
  "Send d m \<in> set (snd (handleHello s now c msg)) \<Longrightarrow> is_broadcast m \<Longrightarrow> d \<noteq> c"
  by (auto simp: handleHello_def Let_def Send_in_sendError Send_in_broadcast Send_in_send
      split: option.splits if_splits)

lemma Send_in_handleMessage:
  "Send d m \<in> set (snd (handleMessage s now c msg)) \<Longrightarrow> is_broadcast m \<Longrightarrow> d \<noteq> c"
  by (auto simp: handleMessage_def handlePong_def Send_in_sendError
      dest: Send_in_handleHello Send_in_handleSnapshot Send_in_handlePlantEvent
      split: option.splits if_splits)

lemma Send_in_wsOnMessage:
  "Send d m \<in> set (snd (wsOnMessage s now c f)) \<Longrightarrow> is_broadcast m \<Longrightarrow> d \<noteq> c"
  by (cases f) (auto simp: wsOnMessage_def Send_in_sendError dest: Send_in_handleMessage)

lemma Send_in_handleDisconnect:
  "Send d m \<in> set (snd (handleDisconnect s now c)) \<Longrightarrow> d \<noteq> c"
  by (auto simp: handleDisconnect_def Let_def Send_in_broadcast members_def set_delete_def
      split: option.splits if_splits)

lemma Send_in_wsOnClose:
  "Send d m \<in> set (snd (wsOnClose s now c)) \<Longrightarrow> d \<noteq> c"
  unfolding wsOnClose_def by (rule Send_in_handleDisconnect)

text \<open>
  C6. A valid hello (version 1, a non-empty clientId) arrives on connection \<open>c\<close>. After
  it the room holds its former members and \<open>c\<close>. Every other member whose socket is open
  is sent the join with the new clientId; the only message sent to \<open>c\<close> itself is the
  hello_ack, which is sent if its socket is open and goes to no one else. In general, for
  every frame arriving on \<open>c\<close> no message fanned out to a room (join, leave, snapshot,
  event:plant) is sent to \<open>c\<close>, and when \<open>c\<close> closes nothing at all is sent to \<open>c\<close>.
\<close>

theorem hello_join_excludes_sender:
  fixes s :: relay and now :: int and c :: conn and msg :: message
  assumes "v msg = JNum (Fin 1)" "mtype msg = ''hello''" "m_clientId msg = Some cid" "cid \<noteq> []"
  defines "rm \<equiv> (case m_room msg of None \<Rightarrow> ''default'' | Some r \<Rightarrow> r)"
  defines "s' \<equiv> fst (wsOnMessage s now c (Msg msg))"
  defines "out \<equiv> snd (wsOnMessage s now c (Msg msg))"
  shows "set (members s' rm) = insert c (set (members s rm))
       \<and> (\<forall>d. d \<in> set (members s' rm) \<and> d \<noteq> c \<and> isOpen s d \<longrightarrow> Send d (Join cid now) \<in> set out)
       \<and> (\<forall>m. Send c m \<in> set out \<longrightarrow> m = HelloAck cid rm)
       \<and> (isOpen s c \<longrightarrow> Send c (HelloAck cid rm) \<in> set out)
       \<and> (\<forall>d m. Send d m \<in> set out \<and> \<not> is_broadcast m \<longrightarrow> d = c)
       \<and> (\<forall>f d m. Send d m \<in> set (snd (step s (now, Message c f))) \<and> is_broadcast m \<longrightarrow> d \<noteq> c)
       \<and> (\<forall>d m. Send d m \<in> set (snd (step s (now, Close c))) \<longrightarrow> d \<noteq> c)"
proof -
  have om: "wsOnMessage s now c (Msg msg) = handleHello s now c msg"
    using assms(1,2) by (simp add: wsOnMessage_def handleMessage_def)
  note hh = handleHello_result[OF assms(3,4), of s now c, folded rm_def]
  have mem: "set (members s' rm) = insert c (set (members s rm))"
    using members_cleanupClient[of s c rm] by (auto simp: s'_def om hh(2) set_set_add)
  have out: "out = broadcastToRoom s' rm (Join cid now) (Some c) @ send s' c (HelloAck cid rm)"
    by (simp add: out_def s'_def om hh(3))
  have op: "isOpen s' = isOpen s" by (simp add: s'_def om hh(1))
  have a: "\<forall>d. d \<in> set (members s' rm) \<and> d \<noteq> c \<and> isOpen s d \<longrightarrow> Send d (Join cid now) \<in> set out"
    by (simp add: out Send_in_broadcast Send_in_send op)
  have b: "\<forall>m. Send c m \<in> set out \<longrightarrow> m = HelloAck cid rm"
    by (auto simp: out Send_in_broadcast Send_in_send)
  have c: "isOpen s c \<longrightarrow> Send c (HelloAck cid rm) \<in> set out"
    by (simp add: out Send_in_send op)
  have d: "\<forall>d m. Send d m \<in> set out \<and> \<not> is_broadcast m \<longrightarrow> d = c"
    by (auto simp: out Send_in_broadcast Send_in_send)
  have e: "\<forall>f d m. Send d m \<in> set (snd (step s (now, Message c f))) \<and> is_broadcast m \<longrightarrow> d \<noteq> c"
    by (auto dest: Send_in_wsOnMessage)
  have f: "\<forall>d m. Send d m \<in> set (snd (step s (now, Close c))) \<longrightarrow> d \<noteq> c"
    by (auto dest: Send_in_wsOnClose)
  from mem a b c d e f show ?thesis by blast
qed

text \<open>
  C6, evaluated: client a is in room r1 on connection 0, and connection 1 sends
  hello for client b and room r1.
\<close>

theorem hello_join_excludes_sender_witness:
  "set (members (fst (wsOnMessage oneInRoom 1002 1 (Msg (hello ''b'' ''r1'')))) ''r1'') = {0, 1}
   \<and> Send 0 (Join ''b'' 1002) \<in> set (snd (wsOnMessage oneInRoom 1002 1 (Msg (hello ''b'' ''r1''))))
   \<and> Send 1 (HelloAck ''b'' ''r1'') \<in> set (snd (wsOnMessage oneInRoom 1002 1 (Msg (hello ''b'' ''r1''))))
   \<and> Send 1 (Join ''b'' 1002) \<notin> set (snd (wsOnMessage oneInRoom 1002 1 (Msg (hello ''b'' ''r1''))))"
proof -
  have h: "v (hello ''b'' ''r1'') = JNum (Fin 1)" "mtype (hello ''b'' ''r1'') = ''hello''"
    "m_clientId (hello ''b'' ''r1'') = Some ''b''" "''b'' \<noteq> []"
    by (simp_all add: hello_def blank_def)
  have r: "m_room (hello ''b'' ''r1'') = Some ''r1''" by (simp add: hello_def)
  have o: "isOpen oneInRoom (Suc 0)" using oneInRoom_facts(3) by simp
  show ?thesis
    using hello_join_excludes_sender[OF h, of oneInRoom 1002 1]
    by (auto simp: r o oneInRoom_facts)
qed

text \<open>
  C8, as the code has it. A snapshot or event:plant message that arrives on an open
  connection without a session is answered with one error message, sent to that
  connection alone: "Not authenticated" when the message has version 1, "Unsupported
  message version" otherwise. A pong that arrives on an open connection without a session
  is answered with "Unsupported message version" when its version is not 1 and is ignored,
  with no reply, when its version is 1. In every case the relay's state is unchanged and
  nothing closes the connection.
\<close>

theorem sessionless_message:
  assumes "clients s c = None" "isOpen s c"
  shows "(mtype msg = ''snapshot'' \<or> mtype msg = ''event:plant'' \<longrightarrow>
            step s (now, Message c (Msg msg))
              = (s, [Send c (ErrorMsg (if v msg = JNum (Fin 1) then ''Not authenticated''
                                       else ''Unsupported message version'') now)]))
       \<and> (mtype msg = ''pong'' \<longrightarrow>
            step s (now, Message c (Msg msg))
              = (s, if v msg = JNum (Fin 1) then []
                    else [Send c (ErrorMsg ''Unsupported message version'' now)]))"
  using assms
  by (simp add: wsOnMessage_def handleMessage_def handleSnapshot_def handlePlantEvent_def
      handlePong_def sendError_def send_def)

text \<open>
  C8, evaluated on a connection that has sent no hello, for messages of version 1 and of
  version 2.
\<close>

theorem sessionless_message_witness:
  "step oneOpen (1001, Message 0 (Msg (blank ''snapshot'')))
     = (oneOpen, [Send 0 (ErrorMsg ''Not authenticated'' 1001)])
   \<and> step oneOpen (1001, Message 0 (Msg (blank ''event:plant'')))
     = (oneOpen, [Send 0 (ErrorMsg ''Not authenticated'' 1001)])
   \<and> step oneOpen (1001, Message 0 (Msg ((blank ''snapshot'')\<lparr>v := JNum (Fin 2)\<rparr>)))
     = (oneOpen, [Send 0 (ErrorMsg ''Unsupported message version'' 1001)])
   \<and> step oneOpen (1001, Message 0 (Msg (blank ''pong''))) = (oneOpen, [])
   \<and> step oneOpen (1001, Message 0 (Msg ((blank ''pong'')\<lparr>v := JNum (Fin 2)\<rparr>)))
     = (oneOpen, [Send 0 (ErrorMsg ''Unsupported message version'' 1001)])"
  using sessionless_message[OF oneOpen_facts, of "blank ''snapshot''" 1001]
    sessionless_message[OF oneOpen_facts, of "blank ''event:plant''" 1001]
    sessionless_message[OF oneOpen_facts, of "(blank ''snapshot'')\<lparr>v := JNum (Fin 2)\<rparr>" 1001]
    sessionless_message[OF oneOpen_facts, of "blank ''pong''" 1001]
    sessionless_message[OF oneOpen_facts, of "(blank ''pong'')\<lparr>v := JNum (Fin 2)\<rparr>" 1001]
  by (simp add: blank_def)

text \<open>
  C8 as stated fails for a pong of version 1: connection 0 is open and has no session,
  the pong arrives, and the relay sends nothing, so no error message.
\<close>

theorem pong_without_session_unanswered:
  "clients oneOpen 0 = None \<and> isOpen oneOpen 0
   \<and> snd (step oneOpen (1001, Message 0 (Msg (blank ''pong'')))) = []"
  by (simp add: oneOpen_facts wsOnMessage_def handleMessage_def handlePong_def blank_def)












lemma roomsDistinct_clients: "roomsDistinct (s\<lparr>clients := cs\<rparr>) = roomsDistinct s"
  by (simp add: roomsDistinct_def)





















section \<open>Transport: the queue and the reconnect delays\<close>

lemma length_queueMessage:
  "0 < maxQueueSize t \<Longrightarrow> length (messageQueue t) \<le> maxQueueSize t \<Longrightarrow>
   length (messageQueue (queueMessage t x)) \<le> maxQueueSize t"
  by (auto simp: queueMessage_def Let_def)

lemma queueMessage_keepLast:
  "0 < maxQueueSize t \<Longrightarrow> length (messageQueue t) \<le> maxQueueSize t \<Longrightarrow>
   messageQueue (queueMessage t x) = keepLast (maxQueueSize t) (messageQueue t @ [x])"
  by (cases "messageQueue t") (auto simp: queueMessage_def Let_def keepLast_def Suc_diff_le)

lemma queueMessage_frame:
  "maxQueueSize (queueMessage t x) = maxQueueSize t"
  "isConnected (queueMessage t x) = isConnected t"
  "ws (queueMessage t x) = ws t"
  by (simp_all add: queueMessage_def Let_def)

lemma flush_length: "length (snd (flush w q)) \<le> length q"
  by (induction w q rule: flush.induct) (auto split: option.splits)

lemma flush_open:
  "readyState w = OPEN \<Longrightarrow> flush (Some w) q = (Some (w\<lparr>sent := sent w @ q\<rparr>), [])"
  by (induction q arbitrary: w) (auto simp: ws_send_def)

lemma queueBounded_emit: "queueBounded (emit t e) = queueBounded t"
  by (simp add: queueBounded_def emit_def)

lemma queueBounded_scheduleReconnect: "queueBounded (scheduleReconnect t) = queueBounded t"
  by (simp add: queueBounded_def scheduleReconnect_def emit_def Let_def)

lemma queueBounded_connect: "queueBounded t \<Longrightarrow> queueBounded (connect validUrl t)"
  using queueBounded_scheduleReconnect[of "t\<lparr>isConnecting := True\<rparr>"]
  by (auto simp: connect_def Let_def queueBounded_def split: option.splits)

lemma queueBounded_disconnect: "queueBounded t \<Longrightarrow> queueBounded (disconnect t)"
  by (auto simp: disconnect_def Let_def queueBounded_def split: option.splits)

lemma queueBounded_queueMessage: "queueBounded t \<Longrightarrow> queueBounded (queueMessage t x)"
  using length_queueMessage[of t x] by (simp add: queueBounded_def queueMessage_frame)

lemma queueBounded_send:
  "queueBounded t \<Longrightarrow> send_transport stringify t m = Inr (r, t1) \<Longrightarrow> queueBounded t1"
  by (auto simp: send_transport_def Let_def queueBounded_queueMessage split: option.splits if_splits)
    (simp add: queueBounded_def)

lemma queueBounded_flushQueue: "queueBounded t \<Longrightarrow> queueBounded (flushQueue t)"
  using flush_length[of "ws t" "messageQueue t"]
  by (auto simp: flushQueue_def queueBounded_def split_beta)

lemma queueBounded_onOpen: "queueBounded t \<Longrightarrow> queueBounded (onOpen t)"
  unfolding onOpen_def queueBounded_emit
  by (rule queueBounded_flushQueue) (simp add: queueBounded_def)

lemma queueBounded_onClose: "queueBounded t \<Longrightarrow> queueBounded (onClose t code)"
  by (simp add: onClose_def Let_def queueBounded_scheduleReconnect queueBounded_emit)
    (simp add: queueBounded_def)

lemma queueBounded_step:
  "queueBounded t \<Longrightarrow> queueBounded (transport_step validUrl stringify t x)"
proof (cases x)
  case (SendMsg m)
  then show "queueBounded t \<Longrightarrow> ?thesis"
    by (auto split: sum.splits dest: queueBounded_send)
next
  case SocketOpens
  then show "queueBounded t \<Longrightarrow> ?thesis"
    by (auto split: option.splits intro!: queueBounded_onOpen) (simp add: queueBounded_def)
next
  case (SocketCloses code)
  then show "queueBounded t \<Longrightarrow> ?thesis"
    by (auto split: option.splits intro!: queueBounded_onClose) (simp add: queueBounded_def)
next
  case (TimerFires i)
  then show "queueBounded t \<Longrightarrow> ?thesis"
    by (auto simp: reconnectCallback_def intro!: queueBounded_connect) (simp add: queueBounded_def)
qed (auto simp: queueBounded_connect queueBounded_disconnect onError_def onMessage_def
    queueBounded_emit split: option.splits)

lemma queueBounded_run:
  "queueBounded t \<Longrightarrow> queueBounded (transport_run validUrl stringify t xs)"
  by (induction xs arbitrary: t) (auto simp: queueBounded_step)

lemma queueBounded_new: "queueBounded (TransportWebSocket u)"
  by (simp add: queueBounded_def TransportWebSocket_def)

lemma keepLast_keepLast_append: "keepLast n (keepLast n xs @ ys) = keepLast n (xs @ ys)"
proof (cases "length xs \<le> n")
  case True
  then show ?thesis by (simp add: keepLast_def)
next
  case False
  then have "keepLast n (keepLast n xs @ ys) = drop (length ys) (drop (length xs - n) xs @ ys)"
    by (simp add: keepLast_def)
  also have "\<dots> = drop (length ys) (drop (length xs - n) (xs @ ys))"
    by simp
  also have "\<dots> = keepLast n (xs @ ys)"
    using False by (simp add: keepLast_def add.commute)
  finally show ?thesis .
qed

lemma send_disconnected:
  "\<not> isConnected t \<Longrightarrow> send_transport stringify t m = Inr (False, queueMessage t (stringify m))"
  by (simp add: send_transport_def)

lemma sends_disconnected:
  assumes "\<not> isConnected t" "queueBounded t"
  shows "messageQueue (transport_run validUrl stringify t (map SendMsg ms))
           = keepLast (maxQueueSize t) (messageQueue t @ map stringify ms)
       \<and> ws (transport_run validUrl stringify t (map SendMsg ms)) = ws t
       \<and> isConnected (transport_run validUrl stringify t (map SendMsg ms)) = isConnected t
       \<and> maxQueueSize (transport_run validUrl stringify t (map SendMsg ms)) = maxQueueSize t"
  using assms
proof (induction ms arbitrary: t)
  case Nil
  then show ?case by (simp add: keepLast_def queueBounded_def)
next
  case (Cons m ms)
  let ?t = "queueMessage t (stringify m)"
  have q: "messageQueue ?t = keepLast (maxQueueSize t) (messageQueue t @ [stringify m])"
    using Cons.prems(2) by (intro queueMessage_keepLast) (simp_all add: queueBounded_def)
  have "\<not> isConnected ?t" "queueBounded ?t"
    using Cons.prems by (simp_all add: queueMessage_frame queueBounded_queueMessage)
  from Cons.IH[OF this] show ?case
    using Cons.prems(1)
    by (simp add: send_disconnected queueMessage_frame q keepLast_keepLast_append)
qed

lemma socket_opens_flushes:
  assumes "ws t = Some w" "readyState w = CONNECTING"
  shows "ws (transport_step validUrl stringify t SocketOpens)
           = Some (w\<lparr>readyState := OPEN, sent := sent w @ messageQueue t\<rparr>)"
    and "messageQueue (transport_step validUrl stringify t SocketOpens) = []"
    and "isConnected (transport_step validUrl stringify t SocketOpens)"
  using assms
  by (simp_all add: onOpen_def flushQueue_def emit_def flush_open)

lemma connectingTransport_facts:
  "\<not> isConnected connectingTransport"
  "ws connectingTransport = Some \<lparr>readyState = CONNECTING, sent = []\<rparr>"
  "messageQueue connectingTransport = []"
  "maxQueueSize connectingTransport = 100"
  by (simp_all add: connectingTransport_def TransportWebSocket_def connect_def newWebSocket_def
      anyUrl_def Let_def)

text \<open>
  C4. \<open>t\<close> is any state the transport can reach from its constructor. Its queue never
  holds more than \<open>maxQueueSize\<close> messages. While \<open>t\<close> is not connected, \<open>send\<close> returns
  \<open>false\<close> (queued) and leaves the queue as the last \<open>maxQueueSize\<close> elements of the old
  queue followed by the serialized message: the message is appended and, when the queue
  was full, its oldest entry is dropped. The same holds for any number of sends in a row.
  When the socket that is being connected then opens, the queue is handed to the socket
  in that order, behind what the socket had been given before, and the queue is empty.
\<close>

theorem send_while_disconnected_queues:
  fixes validUrl :: "string \<Rightarrow> bool" and stringify :: "'m \<Rightarrow> 's" and u :: string
    and ops :: "('m, 'p) transport_op list"
  defines "t \<equiv> (transport_run validUrl stringify (TransportWebSocket u) ops :: ('s, 'p) transport)"
  shows "length (messageQueue t) \<le> maxQueueSize t
    \<and> (\<not> isConnected t \<longrightarrow>
         (\<forall>m. \<exists>t1. send_transport stringify t m = Inr (False, t1)
                  \<and> messageQueue t1 = keepLast (maxQueueSize t) (messageQueue t @ [stringify m]))
       \<and> (\<forall>ms :: 'm list. messageQueue (transport_run validUrl stringify t (map SendMsg ms))
                 = keepLast (maxQueueSize t) (messageQueue t @ map stringify ms))
       \<and> (\<forall>(ms :: 'm list) w. ws t = Some w \<and> readyState w = CONNECTING \<longrightarrow>
            ws (transport_step validUrl stringify
                  (transport_run validUrl stringify t (map SendMsg ms)) SocketOpens)
              = Some (w\<lparr>readyState := OPEN,
                        sent := sent w @ keepLast (maxQueueSize t) (messageQueue t @ map stringify ms)\<rparr>)
          \<and> messageQueue (transport_step validUrl stringify
                  (transport_run validUrl stringify t (map SendMsg ms)) SocketOpens) = []))"
proof -
  have qb: "queueBounded t"
    unfolding t_def by (rule queueBounded_run[OF queueBounded_new])
  then have bound: "length (messageQueue t) \<le> maxQueueSize t" and pos: "0 < maxQueueSize t"
    by (simp_all add: queueBounded_def)
  have one: "\<exists>t1. send_transport stringify t m = Inr (False, t1)
                  \<and> messageQueue t1 = keepLast (maxQueueSize t) (messageQueue t @ [stringify m])"
    if "\<not> isConnected t" for m
    using that queueMessage_keepLast[OF pos bound] by (simp add: send_disconnected)
  have many: "messageQueue (transport_run validUrl stringify t (map SendMsg ms))
                 = keepLast (maxQueueSize t) (messageQueue t @ map stringify ms)"
    if "\<not> isConnected t" for ms :: "'m list"
    using sends_disconnected[OF that qb] by blast
  have opens: "ws (transport_step validUrl stringify
                  (transport_run validUrl stringify t (map SendMsg ms)) SocketOpens)
              = Some (w\<lparr>readyState := OPEN,
                        sent := sent w @ keepLast (maxQueueSize t) (messageQueue t @ map stringify ms)\<rparr>)
          \<and> messageQueue (transport_step validUrl stringify
                  (transport_run validUrl stringify t (map SendMsg ms)) SocketOpens) = []"
    if "\<not> isConnected t" "ws t = Some w" "readyState w = CONNECTING" for ms :: "'m list" and w
  proof -
    let ?t = "transport_run validUrl stringify t (map SendMsg ms)"
    have w: "ws ?t = Some w" using sends_disconnected[OF that(1) qb, of validUrl stringify ms] that(2) by simp
    show ?thesis
      using socket_opens_flushes(1,2)[OF w that(3), of validUrl stringify] many[OF that(1), of ms]
      by simp
  qed
  show ?thesis using bound one many opens by blast
qed

text \<open>
  C4, evaluated: three messages sent between \<open>connect\<close> and the opening of the socket.
\<close>

theorem send_while_disconnected_queues_witness:
  "length (messageQueue connectingTransport) \<le> maxQueueSize connectingTransport
   \<and> (\<exists>t1. send_transport (\<lambda>m. m) connectingTransport ''m1'' = Inr (False, t1)
           \<and> messageQueue t1 = [''m1''])
   \<and> messageQueue (transport_run anyUrl (\<lambda>m. m) connectingTransport
                     (map SendMsg [''m1'', ''m2'', ''m3''])) = [''m1'', ''m2'', ''m3'']
   \<and> ws (transport_step anyUrl (\<lambda>m. m)
            (transport_run anyUrl (\<lambda>m. m) connectingTransport
               (map SendMsg [''m1'', ''m2'', ''m3''])) SocketOpens)
       = Some \<lparr>readyState = OPEN, sent = [''m1'', ''m2'', ''m3'']\<rparr>
   \<and> messageQueue (transport_step anyUrl (\<lambda>m. m)
            (transport_run anyUrl (\<lambda>m. m) connectingTransport
               (map SendMsg [''m1'', ''m2'', ''m3''])) SocketOpens) = []"
proof -
  note th = send_while_disconnected_queues[where validUrl = anyUrl and stringify = "\<lambda>m::string. m"
      and u = "''ws://localhost:8090''" and ops = "[Connect] :: (string, string) transport_op list",
      folded connectingTransport_def]
  have a: "length (messageQueue connectingTransport) \<le> maxQueueSize connectingTransport"
    using th by blast
  have b: "\<exists>t1. send_transport (\<lambda>m. m) connectingTransport ''m1'' = Inr (False, t1)
           \<and> messageQueue t1 = [''m1'']"
    using th[THEN conjunct2, rule_format, OF connectingTransport_facts(1), THEN conjunct1,
        rule_format, of "''m1''"]
    by (simp add: connectingTransport_facts keepLast_def)
  have c: "messageQueue (transport_run anyUrl (\<lambda>m. m) connectingTransport
                     (map SendMsg [''m1'', ''m2'', ''m3''])) = [''m1'', ''m2'', ''m3'']"
    using th[THEN conjunct2, rule_format, OF connectingTransport_facts(1), THEN conjunct2,
        THEN conjunct1, rule_format, of "[''m1'', ''m2'', ''m3'']"]
    by (simp add: connectingTransport_facts keepLast_def)
  have d: "ws (transport_step anyUrl (\<lambda>m. m)
            (transport_run anyUrl (\<lambda>m. m) connectingTransport
               (map SendMsg [''m1'', ''m2'', ''m3''])) SocketOpens)
       = Some \<lparr>readyState = OPEN, sent = [''m1'', ''m2'', ''m3'']\<rparr>
     \<and> messageQueue (transport_step anyUrl (\<lambda>m. m)
            (transport_run anyUrl (\<lambda>m. m) connectingTransport
               (map SendMsg [''m1'', ''m2'', ''m3''])) SocketOpens) = []"
    using th[THEN conjunct2, rule_format, OF connectingTransport_facts(1), THEN conjunct2,
        THEN conjunct2, rule_format, of "\<lparr>readyState = CONNECTING, sent = []\<rparr>" "[''m1'', ''m2'', ''m3'']"]
    by (simp add: connectingTransport_facts keepLast_def)
  from a b c d show ?thesis by blast
qed

lemma transport_run_append:
  "transport_run validUrl stringify t (xs @ ys)
     = transport_run validUrl stringify (transport_run validUrl stringify t xs) ys"
  by (induction xs arbitrary: t) simp_all

lemma scheduleReconnect_below:
  "reconnectAttempts t < maxReconnectAttempts t \<Longrightarrow>
   scheduleReconnect t =
     t\<lparr>timers := timers t @ [(nextTimer t, min (reconnectDelay t * 2 ^ reconnectAttempts t) (maxReconnectDelay t))],
       reconnectTimer := Some (nextTimer t), nextTimer := nextTimer t + 1\<rparr>"
  by (simp add: scheduleReconnect_def Let_def)

lemma scheduleReconnect_exhausted:
  "maxReconnectAttempts t \<le> reconnectAttempts t \<Longrightarrow>
   scheduleReconnect t = emit t EvMaxReconnectAttemptsReached"
  by (simp add: scheduleReconnect_def)

lemma stepA: "k < 10 \<Longrightarrow> transport_step validUrl stringify (failing u k) (SocketCloses 1006)
  = (failing u k)\<lparr>ws := Some \<lparr>readyState = CLOSED, sent = []\<rparr>, isConnecting := False,
       emitted := replicate k (EvClose 1006) @ [EvClose 1006],
       timers := [(Suc k, min (1000 * 2 ^ k) 30000)], reconnectTimer := Some (Suc k),
       nextTimer := Suc (Suc k)\<rparr>"
  by (simp add: failing_def onClose_def emit_def scheduleReconnect_def Let_def)

lemma stepB: "validUrl u \<Longrightarrow> transport_step validUrl stringify ((failing u k)\<lparr>ws := Some \<lparr>readyState = CLOSED, sent = []\<rparr>, isConnecting := False,
       emitted := replicate k (EvClose 1006) @ [EvClose 1006],
       timers := [(Suc k, min (1000 * 2 ^ k) 30000)], reconnectTimer := Some (Suc k),
       nextTimer := Suc (Suc k)\<rparr>) (TimerFires (Suc k)) = failing u (Suc k)"
  by (simp add: failing_def reconnectCallback_def connect_def newWebSocket_def Let_def
      replicate_append_same)

lemma after_failures:
  fixes stringify :: "'m \<Rightarrow> 's"
  assumes "validUrl u" "k \<le> 10"
  shows "transport_run validUrl stringify (TransportWebSocket u :: ('s, 'p) transport) (Connect # failures k) = failing u k"
  using assms(2)
proof (induction k)
  case 0
  show ?case
    using assms(1)
    by (simp add: TransportWebSocket_def connect_def newWebSocket_def Let_def failing_def)
next
  case (Suc k)
  from Suc.prems have k: "k < 10" by simp
  note IH = Suc.IH[OF order.strict_implies_order[OF k]]
  have "transport_run validUrl stringify (TransportWebSocket u :: ('s, 'p) transport) (Connect # failures (Suc k))
      = transport_run validUrl stringify
          (transport_run validUrl stringify (TransportWebSocket u :: ('s, 'p) transport) (Connect # failures k))
          [SocketCloses 1006, TimerFires (Suc k)]"
    using transport_run_append[of validUrl stringify "TransportWebSocket u :: ('s, 'p) transport" "Connect # failures k"
        "[SocketCloses 1006, TimerFires (Suc k)]"]
    by (simp only: failures.simps append_Cons)
  also have "\<dots> = transport_run validUrl stringify (failing u k)
                     [SocketCloses 1006, TimerFires (Suc k)]"
    by (simp only: IH)
  also have "\<dots> = transport_step validUrl stringify
                     (transport_step validUrl stringify (failing u k) (SocketCloses 1006))
                     (TimerFires (Suc k))"
    by (simp only: transport_run.simps)
  also have "\<dots> = failing u (Suc k)"
    by (simp only: stepA[OF k] stepB[where validUrl = validUrl and u = u, OF assms(1)])
  finally show ?case .
qed

lemma transport_run_snoc:
  "transport_run validUrl stringify t (xs @ [x])
     = transport_step validUrl stringify (transport_run validUrl stringify t xs) x"
  by (simp add: transport_run_append)

lemma failure_schedules:
  fixes stringify :: "'m \<Rightarrow> 's"
  assumes "validUrl u" "k < 10"
  shows "timers (transport_run validUrl stringify (TransportWebSocket u :: ('s, 'p) transport)
                   (Connect # failures k @ [SocketCloses 1006]))
           = [(Suc k, min (1000 * 2 ^ k) 30000)]"
proof -
  have "k \<le> 10" using assms(2) by simp
  note af = after_failures[where validUrl = validUrl and u = u and k = k and stringify = stringify,
      OF assms(1) this]
  have e: "transport_run validUrl stringify (TransportWebSocket u :: ('s, 'p) transport)
             (Connect # failures k @ [SocketCloses 1006])
         = transport_step validUrl stringify
             (transport_run validUrl stringify (TransportWebSocket u :: ('s, 'p) transport) (Connect # failures k))
             (SocketCloses 1006)"
    using transport_run_snoc[of validUrl stringify "TransportWebSocket u :: ('s, 'p) transport" "Connect # failures k"]
    by (simp only: append_Cons)
  show ?thesis
    by (simp only: e af stepA[OF assms(2)]) simp
qed

lemma failure_exhausted:
  fixes stringify :: "'m \<Rightarrow> 's"
  assumes "validUrl u"
  shows "timers (transport_run validUrl stringify (TransportWebSocket u :: ('s, 'p) transport)
                   (Connect # failures 10 @ [SocketCloses 1006])) = []
       \<and> emitted (transport_run validUrl stringify (TransportWebSocket u :: ('s, 'p) transport)
                   (Connect # failures 10 @ [SocketCloses 1006]))
           = replicate 10 (EvClose 1006) @ [EvClose 1006, EvMaxReconnectAttemptsReached]"
proof -
  note af = after_failures[where validUrl = validUrl and u = u and k = 10 and stringify = stringify,
      OF assms order.refl]
  have e: "transport_run validUrl stringify (TransportWebSocket u :: ('s, 'p) transport)
             (Connect # failures 10 @ [SocketCloses 1006])
         = transport_step validUrl stringify
             (transport_run validUrl stringify (TransportWebSocket u :: ('s, 'p) transport) (Connect # failures 10))
             (SocketCloses 1006)"
    using transport_run_snoc[of validUrl stringify "TransportWebSocket u :: ('s, 'p) transport" "Connect # failures 10"]
    by (simp only: append_Cons)
  show ?thesis
    unfolding e af
    by (simp add: failing_def onClose_def emit_def scheduleReconnect_def Let_def)
qed

text \<open>
  C5. While fewer than \<open>maxReconnectAttempts\<close> attempts were made, \<open>scheduleReconnect\<close>
  sets one timer, with the delay \<open>min (reconnectDelay * 2 ^ reconnectAttempts)
  maxReconnectDelay\<close>, and emits nothing; once the attempts have reached the maximum it
  sets no timer and emits \<open>maxReconnectAttemptsReached\<close>. With the constructor's
  values (1000 ms, 30000 ms, 10 attempts), when every attempt fails the timer set after
  the \<open>k\<close>-th failure, \<open>k\<close> from 0 to 9, has the delay \<open>min (1000 * 2 ^ k) 30000\<close>, and
  after the failure of the tenth retry no timer is set and the last event emitted is
  \<open>maxReconnectAttemptsReached\<close>.
\<close>

theorem reconnect_backoff:
  fixes validUrl :: "string \<Rightarrow> bool" and stringify :: "'m \<Rightarrow> 's" and u :: string
  shows "(\<forall>t :: ('s, 'p) transport. reconnectAttempts t < maxReconnectAttempts t \<longrightarrow>
            timers (scheduleReconnect t)
              = timers t @ [(nextTimer t,
                             min (reconnectDelay t * 2 ^ reconnectAttempts t) (maxReconnectDelay t))]
          \<and> emitted (scheduleReconnect t) = emitted t)
       \<and> (\<forall>t :: ('s, 'p) transport. maxReconnectAttempts t \<le> reconnectAttempts t \<longrightarrow>
            timers (scheduleReconnect t) = timers t
          \<and> emitted (scheduleReconnect t) = emitted t @ [EvMaxReconnectAttemptsReached])
       \<and> (validUrl u \<longrightarrow>
            (\<forall>k. k < 10 \<longrightarrow>
               timers (transport_run validUrl stringify (TransportWebSocket u :: ('s, 'p) transport)
                         (Connect # failures k @ [SocketCloses 1006]))
                 = [(Suc k, min (1000 * 2 ^ k) 30000)])
          \<and> timers (transport_run validUrl stringify (TransportWebSocket u :: ('s, 'p) transport)
                       (Connect # failures 10 @ [SocketCloses 1006])) = []
          \<and> emitted (transport_run validUrl stringify (TransportWebSocket u :: ('s, 'p) transport)
                       (Connect # failures 10 @ [SocketCloses 1006]))
              = replicate 10 (EvClose 1006) @ [EvClose 1006, EvMaxReconnectAttemptsReached])"
proof (intro conjI allI impI)
  fix t :: "('s, 'p) transport"
  assume "reconnectAttempts t < maxReconnectAttempts t"
  then show "timers (scheduleReconnect t)
              = timers t @ [(nextTimer t,
                             min (reconnectDelay t * 2 ^ reconnectAttempts t) (maxReconnectDelay t))]"
    and "emitted (scheduleReconnect t) = emitted t"
    by (simp_all add: scheduleReconnect_below)
next
  fix t :: "('s, 'p) transport"
  assume "maxReconnectAttempts t \<le> reconnectAttempts t"
  then show "timers (scheduleReconnect t) = timers t"
    and "emitted (scheduleReconnect t) = emitted t @ [EvMaxReconnectAttemptsReached]"
    by (simp_all add: scheduleReconnect_exhausted emit_def)
next
  fix k :: nat
  assume "validUrl u" "k < 10"
  then show "timers (transport_run validUrl stringify (TransportWebSocket u :: ('s, 'p) transport)
                         (Connect # failures k @ [SocketCloses 1006]))
                 = [(Suc k, min (1000 * 2 ^ k) 30000)]"
    by (rule failure_schedules)
next
  assume v: "validUrl u"
  note fe = failure_exhausted[where validUrl = validUrl and u = u and stringify = stringify
      and ?'p = 'p, OF v]
  show "timers (transport_run validUrl stringify (TransportWebSocket u :: ('s, 'p) transport)
                       (Connect # failures 10 @ [SocketCloses 1006])) = []"
    using fe by blast
  show "emitted (transport_run validUrl stringify (TransportWebSocket u :: ('s, 'p) transport)
                       (Connect # failures 10 @ [SocketCloses 1006]))
              = replicate 10 (EvClose 1006) @ [EvClose 1006, EvMaxReconnectAttemptsReached]"
    using fe by blast
qed

text \<open>
  C5, evaluated: the delays are 1000, 2000, 4000, 8000, 16000 and then 30000.
\<close>

theorem reconnect_backoff_witness:
  "map (\<lambda>k. timers (transport_run anyUrl (\<lambda>m. m)
                       (TransportWebSocket ''ws://localhost:8090'' :: (string, string) transport)
                       (Connect # failures k @ [SocketCloses 1006 :: (string, string) transport_op])))
       [0, 1, 2, 3, 4, 5, 6, 7, 8, 9]
     = [ [(1, 1000)], [(2, 2000)], [(3, 4000)], [(4, 8000)], [(5, 16000)], [(6, 30000)],
        [(7, 30000)], [(8, 30000)], [(9, 30000)], [(10, 30000)]]
   \<and> timers (transport_run anyUrl (\<lambda>m. m)
               (TransportWebSocket ''ws://localhost:8090'' :: (string, string) transport)
               (Connect # failures 10 @ [SocketCloses 1006 :: (string, string) transport_op])) = []
   \<and> last (emitted (transport_run anyUrl (\<lambda>m. m)
               (TransportWebSocket ''ws://localhost:8090'' :: (string, string) transport)
               (Connect # failures 10 @ [SocketCloses 1006 :: (string, string) transport_op])))
       = EvMaxReconnectAttemptsReached"
proof -
  have v: "anyUrl ''ws://localhost:8090''" by (simp add: anyUrl_def)
  note th = reconnect_backoff[where validUrl = anyUrl and stringify = "\<lambda>m::string. m"
      and u = "''ws://localhost:8090''" and ?'p = string,
      THEN conjunct2, THEN conjunct2, rule_format, OF v]
  note d = th[THEN conjunct1, rule_format]
  have e: "timers (transport_run anyUrl (\<lambda>m. m)
               (TransportWebSocket ''ws://localhost:8090'' :: (string, string) transport)
               (Connect # failures 10 @ [SocketCloses 1006 :: (string, string) transport_op])) = []"
    using th by blast
  have f: "last (emitted (transport_run anyUrl (\<lambda>m. m)
               (TransportWebSocket ''ws://localhost:8090'' :: (string, string) transport)
               (Connect # failures 10 @ [SocketCloses 1006 :: (string, string) transport_op])))
       = EvMaxReconnectAttemptsReached"
    using th[THEN conjunct2, THEN conjunct2] by simp
  show ?thesis
    using d[of 0] d[of 1] d[of 2] d[of 3] d[of 4] d[of 5] d[of 6] d[of 7] d[of 8] d[of 9] e f
    by simp
qed

section \<open>Sync coordinator: echoes and the local client\<close>

lemmas client_eval = plantReceived_def plantByB_def init_def MultiplayerSystem_def anyUrl_def
  transportEvent_def connect_def newWebSocket_def TransportWebSocket_def onOpen_def onMessage_def
  flushQueue_def emit_def listener_def sendVia_def send_transport_def ws_send_def
  handleMessage_mp_def handleRemotePlantEvent_def createEntity_def addComponent_def
  hasComponent_def matchNewlyPlanted_def frame_def execute_def publishSnapshot_def
  getComponent_def clearEvents_def Let_def

text \<open>
  C7. Client a receives the event:plant of client b. \<open>handleRemotePlantEvent\<close> adds
  \<open>PlantGrowingComponent\<close> before \<open>Networked\<close>: when the second component is added the
  entity matches \<open>newlyPlanted\<close> and enters its \<open>added\<close> list, and the tag that follows
  takes it out of the results only. At the next frame \<open>execute\<close> sends the plant to the
  relay: the socket, which had been handed the hello only, is handed an event:plant for
  the rose that client b planted.
\<close>

theorem remote_plant_is_rebroadcast:
  "entities plantReceived 0
     = Some [Object3DComponent (Object3D 0 (Vec3 (Fin 1) (Fin 0) (Fin 2))
                                  (Quat (Fin 0) (Fin 0) (Fin 0) (Fin 1))),
             PlantGrowingComponent ''rose'', Networked]
   \<and> newlyPlanted_added plantReceived = [0]
   \<and> map_option ws (ms_transport plantReceived)
       = Some (Some \<lparr>readyState = OPEN, sent = [ClientHello (Some ''a'') ''r1'']\<rparr>)
   \<and> map_option ws (ms_transport (client_step anyUrl (\<lambda>m. m) plantReceived (5010, Frame 16 None)))
       = Some (Some \<lparr>readyState = OPEN,
                      sent = [ClientHello (Some ''a'') ''r1'',
                              ClientPlant ''rose'' (Vec3 (Fin 1) (Fin 0) (Fin 2))
                                (Quat (Fin 0) (Fin 0) (Fin 0) (Fin 1)) 5010]\<rparr>)"
  by (simp add: client_eval)

lemma map_of_update_other: "k \<noteq> c \<Longrightarrow> map_of (AList.update k x al) c = map_of al c"
  by (simp add: update_conv')

lemma map_of_delete_None: "map_of al c = None \<Longrightarrow> map_of (AList.delete k al) c = None"
  by (simp add: delete_conv')

lemma localAbsent_transport: "localAbsent c (s\<lparr>ms_transport := t\<rparr>) = localAbsent c s"
  by (simp add: localAbsent_def)

lemma localAbsent_lastSnapshotTime: "localAbsent c (s\<lparr>lastSnapshotTime := t\<rparr>) = localAbsent c s"
  by (simp add: localAbsent_def)

lemma localAbsent_clearEvents: "localAbsent c (clearEvents s) = localAbsent c s"
  by (simp add: localAbsent_def clearEvents_def)

lemma localAbsent_createRemotePlayer:
  assumes "localAbsent c s" "cid \<noteq> c"
  shows "localAbsent c (snd (createRemotePlayer s cid))"
  using assms
  by (auto simp: localAbsent_def createRemotePlayer_def createEntity_def addComponent_def
      hasComponent_def matchNewlyPlanted_def Let_def map_of_update_other split: if_splits)

lemma localAbsent_scene: "localAbsent c (s\<lparr>scene := sc\<rparr>) = localAbsent c s"
  by (simp add: localAbsent_def)

lemma localAbsent_removeEntity: "localAbsent c s \<Longrightarrow> localAbsent c (removeEntity s e)"
  by (simp add: localAbsent_def removeEntity_def)

lemma localAbsent_delete:
  "localAbsent c s \<Longrightarrow> localAbsent c (s\<lparr>remotePlayers := AList.delete cid (remotePlayers s)\<rparr>)"
  by (simp add: localAbsent_def map_of_delete_None)

lemma localAbsent_removeRemotePlayer:
  assumes "localAbsent c s"
  shows "localAbsent c (removeRemotePlayer s cid)"
proof (cases "map_of (remotePlayers s) cid")
  case None
  then show ?thesis using assms by (simp add: removeRemotePlayer_def)
next
  case (Some entity)
  define s1 where "s1 = (case entities s entity of
                      None \<Rightarrow> s
                    | Some comps \<Rightarrow>
                        (case getComponent comps TNetworkedPlayer of
                           Some (NetworkedPlayerComponent np) \<Rightarrow>
                             s\<lparr>scene := filter (\<lambda>g. g \<noteq> headGroup np \<and> g \<noteq> leftHandGroup np
                                                     \<and> g \<noteq> rightHandGroup np) (scene s)\<rparr>
                         | _ \<Rightarrow> s))"
  have "localAbsent c s1"
    using assms unfolding s1_def
    by (auto simp: localAbsent_scene split: option.splits component.splits)
  then have "localAbsent c (removeEntity s1 entity)"
    by (rule localAbsent_removeEntity)
  then have "localAbsent c ((removeEntity s1 entity)
               \<lparr>remotePlayers := AList.delete cid (remotePlayers (removeEntity s1 entity))\<rparr>)"
    by (rule localAbsent_delete)
  then show ?thesis
    using Some by (simp add: removeRemotePlayer_def Let_def s1_def)
qed

lemma localAbsent_updateRemotePlayerTransform:
  assumes "localAbsent c s"
  shows "localAbsent c (updateRemotePlayerTransform s now e tv h l r)"
proof (cases "entities s e")
  case None
  then show ?thesis using assms by (simp add: updateRemotePlayerTransform_def)
next
  case (Some comps)
  define f where "f = (\<lambda>c. case c of
                      NetworkedPlayerComponent np \<Rightarrow>
                           NetworkedPlayerComponent
                             (np\<lparr>targetHeadPosition := pose_p h, targetHeadRotation := pose_q h,
                                 targetLeftHandPosition := pose_p l, targetLeftHandRotation := pose_q l,
                                 targetRightHandPosition := pose_p r, targetRightHandRotation := pose_q r,
                                 np_lastSnapshotTime := t_or_now tv now\<rparr>)
                    | _ \<Rightarrow> c)"
  have upd: "updateRemotePlayerTransform s now e tv h l r
               = s\<lparr>entities := (entities s)(e \<mapsto> map f comps)\<rparr>"
    by (simp add: updateRemotePlayerTransform_def Some f_def)
  have keep: "\<exists>np0. NetworkedPlayerComponent np0 \<in> set comps \<and> np_clientId np0 = np_clientId np"
    if "NetworkedPlayerComponent np \<in> set (map f comps)" for np
  proof -
    from that obtain x where x: "x \<in> set comps" "f x = NetworkedPlayerComponent np" by auto
    have "\<exists>np0. x = NetworkedPlayerComponent np0 \<and> np_clientId np0 = np_clientId np"
      using x(2) unfolding f_def by (auto split: component.splits)
    with x(1) show ?thesis by auto
  qed
  have old: "np_clientId np0 \<noteq> c" if "NetworkedPlayerComponent np0 \<in> set comps" for np0
    using assms Some that unfolding localAbsent_def by blast
  have new: "np_clientId np \<noteq> c" if "NetworkedPlayerComponent np \<in> set (map f comps)" for np
    using keep[OF that] old by auto
  show ?thesis
    unfolding upd using assms new
    by (auto simp: localAbsent_def)
qed

lemma localAbsent_handleRemotePlantEvent:
  assumes "localAbsent c s"
  shows "localAbsent c (handleRemotePlantEvent s cid pt ps qt)"
  using assms
  by (auto simp: localAbsent_def handleRemotePlantEvent_def createEntity_def addComponent_def
      hasComponent_def matchNewlyPlanted_def Let_def split: if_splits)

lemma localAbsent_handleMessage:
  assumes "localAbsent c s"
  shows "localAbsent c (handleMessage_mp s now msg)"
proof (cases msg)
  case (Join cid ts)
  then show ?thesis
    using assms localAbsent_createRemotePlayer[OF assms, of cid]
    by (auto simp: handleMessage_mp_def handlePlayerJoin_def localAbsent_def)
next
  case (Leave cid ts)
  then show ?thesis
    using assms by (simp add: handleMessage_mp_def handlePlayerLeave_def localAbsent_removeRemotePlayer)
next
  case (Snapshot tv h l r cid)
  show ?thesis
  proof (cases "Some cid = ms_clientId s")
    case True
    then show ?thesis using assms Snapshot by (simp add: handleMessage_mp_def handleSnapshot_mp_def)
  next
    case False
    then have ne: "cid \<noteq> c" using assms by (auto simp: localAbsent_def)
    show ?thesis
    proof (cases "map_of (remotePlayers s) cid")
      case None
      then show ?thesis
        using False Snapshot localAbsent_createRemotePlayer[OF assms ne]
        by (simp add: handleMessage_mp_def handleSnapshot_mp_def split_beta
            localAbsent_updateRemotePlayerTransform)
    next
      case (Some e)
      then show ?thesis
        using False Snapshot assms
        by (simp add: handleMessage_mp_def handleSnapshot_mp_def localAbsent_updateRemotePlayerTransform)
    qed
  qed
next
  case (PlantEvent cid pt ps qt tv)
  then show ?thesis
    using assms by (simp add: handleMessage_mp_def localAbsent_handleRemotePlantEvent)
qed (use assms in \<open>simp_all add: handleMessage_mp_def\<close>)

lemma localAbsent_sendVia:
  assumes "localAbsent c s"
  shows "localAbsent c (fst (sendVia stringify s m))"
  using assms
  by (auto simp: sendVia_def localAbsent_transport split: option.splits sum.splits)

lemma localAbsent_sendVia_eq:
  assumes "localAbsent c s" "sendVia stringify s m = (s1, r)"
  shows "localAbsent c s1"
  using localAbsent_sendVia[OF assms(1), of stringify m] assms(2) by simp

lemma localAbsent_listener:
  assumes "localAbsent c s"
  shows "localAbsent c (listener stringify now ev s)"
  using assms
  by (cases ev) (simp_all add: listener_def localAbsent_sendVia localAbsent_handleMessage)

lemma localAbsent_fold_listener:
  assumes "localAbsent c s"
  shows "localAbsent c (fold (listener stringify now) evs s)"
  using assms by (induction evs arbitrary: s) (simp_all add: localAbsent_listener)

lemma localAbsent_transportEvent:
  assumes "localAbsent c s"
  shows "localAbsent c (transportEvent validUrl stringify now s x)"
  using assms
  by (auto simp: transportEvent_def Let_def localAbsent_transport
      intro!: localAbsent_fold_listener split: option.splits)

lemma localAbsent_publishSnapshot:
  assumes "localAbsent c s"
  shows "localAbsent c (fst (publishSnapshot stringify s time poses))"
  using assms
  by (auto simp: publishSnapshot_def localAbsent_lastSnapshotTime
      dest: localAbsent_sendVia_eq split: option.splits prod.splits)

lemma localAbsent_broadcastPlanted:
  assumes "localAbsent c s"
  shows "localAbsent c (fst (broadcastPlanted stringify now s es))"
  using assms
proof (induction es arbitrary: s)
  case Nil
  then show ?case by simp
next
  case (Cons e es)
  show ?case
    using Cons.prems
    by (auto intro!: Cons.IH dest: localAbsent_sendVia_eq
        split: option.splits prod.splits component.splits object3d.splits)
qed

lemma localAbsent_execute:
  assumes "localAbsent c s"
  shows "localAbsent c (fst (execute stringify now s time poses))"
  using assms localAbsent_publishSnapshot[OF assms, of stringify time poses]
  by (auto simp: execute_def localAbsent_broadcastPlanted split: option.splits prod.splits)

lemma localAbsent_frame:
  assumes "localAbsent c s"
  shows "localAbsent c (frame stringify now s time poses)"
  using localAbsent_execute[OF assms, of stringify now time poses]
  by (auto simp: frame_def localAbsent_clearEvents split: option.splits prod.splits)

lemma localAbsent_fold_remove:
  assumes "localAbsent c s"
  shows "localAbsent c (fold (\<lambda>cid s2. removeRemotePlayer s2 cid) cids s)"
  using assms by (induction cids arbitrary: s) (simp_all add: localAbsent_removeRemotePlayer)

lemma localAbsent_onStop:
  assumes "localAbsent c s"
  shows "localAbsent c (onStop s)"
  using assms
  by (auto simp: onStop_def Let_def localAbsent_transport intro!: localAbsent_fold_remove
      split: option.splits)

lemma localAbsent_step:
  assumes "localAbsent c s"
  shows "localAbsent c (client_step validUrl stringify s x)"
proof (cases x)
  case (Pair now op)
  then show ?thesis
    using assms
    by (cases op) (simp_all add: localAbsent_transportEvent localAbsent_frame localAbsent_onStop)
qed

lemma localAbsent_run:
  assumes "localAbsent c s"
  shows "localAbsent c (client_run validUrl stringify s xs)"
  using assms by (induction xs arbitrary: s) (simp_all add: localAbsent_step)

lemma localAbsent_init:
  "localAbsent c (init validUrl True c rm serverUrl MultiplayerSystem)"
  by (simp add: localAbsent_def init_def MultiplayerSystem_def)

lemma own_message_ignored:
  assumes "senderOf msg = Some c" "ms_clientId s = Some c"
  shows "handleMessage_mp s now msg = s"
  using assms
  by (cases msg)
    (simp_all add: handleMessage_mp_def handlePlayerJoin_def handlePlayerLeave_def
      handleSnapshot_mp_def handleRemotePlantEvent_def)

text \<open>
  C10. \<open>s\<close> is any state of an enabled coordinator, reached from \<open>init\<close> by events of its
  transport (the messages received among them), frames and \<open>onStop\<close>; \<open>cid\<close> is its own
  clientId. The map of remote players has no entry for \<open>cid\<close>, no entity carries an
  avatar component for \<open>cid\<close>, and a join, leave, snapshot or event:plant message whose
  clientId is \<open>cid\<close> leaves \<open>s\<close> as it is: no avatar and no plant is created. (A
  coordinator that is not enabled has no transport and receives nothing.)
\<close>

theorem own_messages_ignored:
  fixes validUrl :: "string \<Rightarrow> bool" and stringify :: "client_msg \<Rightarrow> 's"
    and cid rm serverUrl :: string and ops :: "(int \<times> client_op) list"
  defines "s \<equiv> client_run validUrl stringify
                  (init validUrl True cid rm serverUrl (MultiplayerSystem :: 's mpsystem)) ops"
  shows "ms_clientId s = Some cid
       \<and> map_of (remotePlayers s) cid = None
       \<and> (\<forall>e comps np. entities s e = Some comps \<and> NetworkedPlayerComponent np \<in> set comps
             \<longrightarrow> np_clientId np \<noteq> cid)
       \<and> (\<forall>now msg. senderOf msg = Some cid \<longrightarrow> handleMessage_mp s now msg = s)"
proof -
  have la: "localAbsent cid s"
    unfolding s_def by (rule localAbsent_run[OF localAbsent_init])
  then have id: "ms_clientId s = Some cid"
    by (simp add: localAbsent_def)
  have ign: "handleMessage_mp s now msg = s" if "senderOf msg = Some cid" for now msg
    by (rule own_message_ignored[OF that id])
  from la ign show ?thesis
    unfolding localAbsent_def by blast
qed

text \<open>
  C10, evaluated: client a receives a join for b and then a join and a snapshot that
  carry its own identifier; b has an avatar, a has none, and an event:plant under a's
  identifier changes nothing.
\<close>

theorem own_messages_ignored_witness:
  "ms_clientId (client_run anyUrl (\<lambda>m. m)
      (init anyUrl True ''a'' ''r1'' ''ws://localhost:8090'' (MultiplayerSystem :: client_msg mpsystem))
      echoedToA) = Some ''a''
   \<and> map_of (remotePlayers (client_run anyUrl (\<lambda>m. m)
      (init anyUrl True ''a'' ''r1'' ''ws://localhost:8090'' (MultiplayerSystem :: client_msg mpsystem))
      echoedToA)) ''a'' = None
   \<and> map_of (remotePlayers (client_run anyUrl (\<lambda>m. m)
      (init anyUrl True ''a'' ''r1'' ''ws://localhost:8090'' (MultiplayerSystem :: client_msg mpsystem))
      echoedToA)) ''b'' = Some 0
   \<and> handleMessage_mp (client_run anyUrl (\<lambda>m. m)
      (init anyUrl True ''a'' ''r1'' ''ws://localhost:8090'' (MultiplayerSystem :: client_msg mpsystem))
      echoedToA) 3000 (PlantEvent ''a'' ''rose'' (Vec3 (Fin 1) (Fin 0) (Fin 2))
                (Quat (Fin 0) (Fin 0) (Fin 0) (Fin 1)) (JNum (Fin 5000)))
     = client_run anyUrl (\<lambda>m. m)
      (init anyUrl True ''a'' ''r1'' ''ws://localhost:8090'' (MultiplayerSystem :: client_msg mpsystem))
      echoedToA"
proof -
  let ?s = "client_run anyUrl (\<lambda>m. m)
      (init anyUrl True ''a'' ''r1'' ''ws://localhost:8090'' (MultiplayerSystem :: client_msg mpsystem))
      echoedToA"
  note th = own_messages_ignored[where validUrl = anyUrl and stringify = "\<lambda>m::client_msg. m"
      and cid = "''a''" and rm = "''r1''" and serverUrl = "''ws://localhost:8090''"
      and ops = echoedToA]
  have b: "map_of (remotePlayers ?s) ''b'' = Some 0"
    by (simp add: echoedToA_def init_def MultiplayerSystem_def anyUrl_def
      transportEvent_def connect_def newWebSocket_def TransportWebSocket_def onOpen_def onMessage_def
      flushQueue_def emit_def listener_def sendVia_def send_transport_def ws_send_def
      handleMessage_mp_def handlePlayerJoin_def handleSnapshot_mp_def createRemotePlayer_def
      createEntity_def addComponent_def hasComponent_def matchNewlyPlanted_def Let_def)
  have p: "senderOf (PlantEvent ''a'' ''rose'' (Vec3 (Fin 1) (Fin 0) (Fin 2))
                (Quat (Fin 0) (Fin 0) (Fin 0) (Fin 1)) (JNum (Fin 5000))) = Some ''a''"
    by simp
  from th b p show ?thesis by blast
qed

end
